theory Spec2Isabelle
  imports Main "HOL-Library.Word"
begin

section \<open>The authentication handler of the cloudx command\<close>

text \<open>
  The Go package \<^verbatim>\<open>cloudx\<close> keeps one JSON document on disk (the \<^verbatim>\<open>AuthContext\<close>)
  and drives the self-service registration and login flows of the identity API.
  Everything outside the package is an explicit parameter of the model:
  \<^item> the libraries (\<^verbatim>\<open>encoding/json\<close>, \<^verbatim>\<open>gjson\<close>, \<^verbatim>\<open>uuid\<close>) are functions of the
    record \<open>env\<close>, over a type \<open>'b\<close> of encoded documents; an error of theirs is a
    message, which the model wraps as \<open>DecodeError\<close> or \<open>EncodeError\<close>;
  \<^item> the identity API, the terminal and the faults of the file system are functions of
    \<open>env\<close> that answer a call from the history of all earlier calls;
  \<^item> the file system and that history (the \<open>trace\<close>) are the state, a \<open>world\<close>, which
    every operation takes and returns.
\<close>

subsection \<open>Data model\<close>

type_synonym UUID = "128 word"

definition uuid_Nil :: UUID where
  "uuid_Nil = 0"

definition version :: string where
  "version = ''v0alpha0''"

record AuthIdentity =
  ID :: UUID
  Email :: string

record AuthContext =
  Version :: string
  SessionToken :: string
  SelectedProject :: UUID
  IdentityTraits :: AuthIdentity

text \<open>\<^verbatim>\<open>new(AuthContext)\<close>: the zero value of the struct.\<close>

definition new_AuthContext :: AuthContext where
  "new_AuthContext =
     \<lparr>Version = [], SessionToken = [], SelectedProject = uuid_Nil,
      IdentityTraits = \<lparr>ID = uuid_Nil, Email = []\<rparr>\<rparr>"

text \<open>The fields of \<^verbatim>\<open>Auth\<close> that the handler's logic reads.\<close>

record Auth =
  configLocation :: string
  noConfirm :: bool

text \<open>A value decoded from JSON, as an \<^verbatim>\<open>interface{}\<close> holds it (the identity traits).\<close>

datatype json =
    JNull
  | JBool bool
  | JNumber int
  | JString string
  | JArray "json list"
  | JObject "(string \<times> json) list"

text \<open>
  The result of a \<^verbatim>\<open>gjson\<close> path lookup, represented by the text that its
  \<^verbatim>\<open>String\<close> method returns (empty for a missing or null value).
\<close>

datatype gjson_Result = Result string

fun gjson_String :: "gjson_Result \<Rightarrow> string" where
  "gjson_String (Result s) = s"

subsubsection \<open>The objects of the identity API\<close>

record UiNode =
  Group :: string
  Attributes :: string

record UiContainer =
  Action :: string
  Nodes :: "UiNode list"

text \<open>
  \<^verbatim>\<open>SelfServiceRegistrationFlow\<close> and \<^verbatim>\<open>SelfServiceLoginFlow\<close>: the handler reads the
  identifier and the UI description of both.
\<close>

record Flow =
  flow_Id :: string
  Ui :: UiContainer

text \<open>
  The dynamic type of the value returned by \<^verbatim>\<open>GenericOpenAPIError.Model()\<close>: a flow by
  pointer, a flow by value, or anything else.
\<close>

datatype model =
    SelfServiceRegistrationFlow_ptr Flow
  | SelfServiceRegistrationFlow_val Flow
  | SelfServiceLoginFlow_ptr Flow
  | SelfServiceLoginFlow_val Flow
  | OtherModel

text \<open>
  The method bodies of the client library that a form can point to. The names shorten
  \<^verbatim>\<open>SubmitSelfService...FlowWith...MethodBody\<close>.
\<close>

datatype form_type =
    LoginWithPasswordMethodBody
  | LoginWithTotpMethodBody
  | LoginWithLookupSecretMethodBody
  | RegistrationWithPasswordMethodBody

type_synonym fields = "(string \<times> string) list"

text \<open>A form: a pointer to a method body, that is its dynamic type and its members.\<close>

type_synonym form = "form_type \<times> fields"

text \<open>\<^verbatim>\<open>SubmitSelfServiceLoginFlowBody\<close>: one optional pointer per method.\<close>

record SubmitSelfServiceLoginFlowBody =
  body_WithTotpMethodBody :: "fields option"
  body_WithPasswordMethodBody :: "fields option"

record SubmitSelfServiceRegistrationFlowBody =
  body_RegistrationWithPasswordMethodBody :: "fields option"

text \<open>
  The successful answer to a submission; \<^verbatim>\<open>SessionToken\<close> is a \<^verbatim>\<open>*string\<close> and may
  be nil.
\<close>

record Successful =
  SessionToken_ptr :: "string option"

record Session =
  Identity_Id :: string
  Identity_Traits :: json

subsubsection \<open>Errors\<close>

datatype 'b error =
    ErrNoConfig
  | ErrNotExist
  | OSError string
  | DecodeError string
  | EncodeError string
  | ErrorsNew string
  | Wrapf string "'b error"
  | WithStack "'b error"
  | GenericOpenAPIError 'b model
  | OtherError string

text \<open>
  \<^verbatim>\<open>errors.Is\<close>: the error itself or one it wraps is the target.
\<close>

fun errors_Is :: "'b error \<Rightarrow> 'b error \<Rightarrow> bool" where
  "errors_Is (Wrapf m e) t = (Wrapf m e = t \<or> errors_Is e t)"
| "errors_Is (WithStack e) t = (WithStack e = t \<or> errors_Is e t)"
| "errors_Is e t = (e = t)"

text \<open>A call ends with an error value returned to the caller, or with a panic.\<close>

datatype 'b failure = Error "'b error" | Panic string

subsection \<open>The world\<close>

datatype 'b file_state = NotExist | Truncated | Content 'b

datatype 'b event =
    Printed string "string list"
  | Asked string bool
  | Rendered UiContainer string form "'b error + fields"
  | OpenedForRead string
  | OpenedForWrite string
  | Written string
  | NewConsoleClient
  | InitRegistration "'b error + Flow"
  | InitLogin "string option" "string option" "'b error + Flow"
  | SubmittedRegistration string SubmitSelfServiceRegistrationFlowBody "'b error + Successful"
  | SubmittedLogin string string SubmitSelfServiceLoginFlowBody "'b error + Successful"
  | ToSession string "'b error + Session"

record 'b world =
  fs :: "string \<Rightarrow> 'b file_state"
  trace :: "'b event list"

record 'b env =
  json_Marshal :: "AuthContext \<Rightarrow> 'b"
  json_Unmarshal :: "'b \<Rightarrow> string + AuthContext"
  json_Encode_any :: "json \<Rightarrow> string + 'b"
  gjson_GetBytes :: "'b \<Rightarrow> string \<Rightarrow> gjson_Result"
  uuid_FromString :: "string \<Rightarrow> UUID option"
  fault_OpenFile :: "'b event list \<Rightarrow> string \<Rightarrow> string option"
  fault_Write :: "'b event list \<Rightarrow> string \<Rightarrow> string option"
  fault_Open :: "'b event list \<Rightarrow> string \<Rightarrow> string option"
  fault_Read :: "'b event list \<Rightarrow> string \<Rightarrow> string option"
  answer_AskForConfirmation :: "'b event list \<Rightarrow> string \<Rightarrow> bool"
  answer_renderForm :: "'b event list \<Rightarrow> UiContainer \<Rightarrow> string \<Rightarrow> form \<Rightarrow> 'b error + fields"
  answer_newConsoleClient :: "'b event list \<Rightarrow> 'b error option"
  answer_InitRegistration :: "'b event list \<Rightarrow> 'b error + Flow"
  answer_InitLogin :: "'b event list \<Rightarrow> string option \<Rightarrow> string option \<Rightarrow> 'b error + Flow"
  answer_SubmitRegistration ::
    "'b event list \<Rightarrow> string \<Rightarrow> SubmitSelfServiceRegistrationFlowBody \<Rightarrow> 'b error + Successful"
  answer_SubmitLogin ::
    "'b event list \<Rightarrow> string \<Rightarrow> string \<Rightarrow> SubmitSelfServiceLoginFlowBody \<Rightarrow> 'b error + Successful"
  answer_ToSession :: "'b event list \<Rightarrow> string \<Rightarrow> 'b error + Session"

definition emit :: "'b event \<Rightarrow> 'b world \<Rightarrow> 'b world" where
  "emit e w = w\<lparr>trace := trace w @ [e]\<rparr>"

text \<open>The calls that reach the identity API over the network.\<close>

fun is_network :: "'b event \<Rightarrow> bool" where
  "is_network (InitRegistration r) = True"
| "is_network (InitLogin t a r) = True"
| "is_network (SubmittedRegistration f b r) = True"
| "is_network (SubmittedLogin t f b r) = True"
| "is_network (ToSession t r) = True"
| "is_network e = False"

subsection \<open>The config store\<close>

text \<open>
  \<^verbatim>\<open>os.OpenFile(path, O_RDWR|O_CREATE|O_TRUNC, 0755)\<close>: on success the file exists
  and is empty; on failure the file system is as before.
\<close>

definition os_OpenFile :: "'b env \<Rightarrow> string \<Rightarrow> 'b world \<Rightarrow> 'b error option \<times> 'b world" where
  "os_OpenFile env path w =
     (case fault_OpenFile env (trace w) path of
        Some msg \<Rightarrow> (Some (OSError msg), emit (OpenedForWrite path) w)
      | None \<Rightarrow> (None, emit (OpenedForWrite path) (w\<lparr>fs := (fs w)(path := Truncated)\<rparr>)))"

text \<open>
  \<^verbatim>\<open>json.NewEncoder(file).Encode(c)\<close> on the file just opened: the whole document is
  written, or the write fails and the file stays incomplete.
\<close>

definition Encode :: "'b env \<Rightarrow> string \<Rightarrow> AuthContext \<Rightarrow> 'b world \<Rightarrow> 'b error option \<times> 'b world" where
  "Encode env path c w =
     (case fault_Write env (trace w) path of
        Some msg \<Rightarrow> (Some (OSError msg), emit (Written path) w)
      | None \<Rightarrow> (None, emit (Written path) (w\<lparr>fs := (fs w)(path := Content (json_Marshal env c))\<rparr>)))"

text \<open>
  \<^verbatim>\<open>WriteConfig\<close> receives a pointer: the context with the version set is returned
  beside the error.
\<close>

definition WriteConfig ::
  "'b env \<Rightarrow> Auth \<Rightarrow> AuthContext \<Rightarrow> 'b world \<Rightarrow> ('b error option \<times> AuthContext) \<times> 'b world" where
  "WriteConfig env h c0 w =
     (let c = c0\<lparr>Version := version\<rparr> in
      case os_OpenFile env (configLocation h) w of
        (Some err, w1) \<Rightarrow>
          ((Some (Wrapf ''unable to open file for writing at location: %s'' err), c), w1)
      | (None, w1) \<Rightarrow>
          (case Encode env (configLocation h) c w1 of
             (Some err, w2) \<Rightarrow>
               ((Some (Wrapf ''unable to write configuration to file: %s'' err), c), w2)
           | (None, w2) \<Rightarrow> ((None, c), w2)))"

text \<open>
  \<^verbatim>\<open>os.Open(path)\<close>: the system can refuse the open with an error of its own (not a
  directory, permission denied, name too long), whether or not the file exists;
  otherwise a missing file is the error \<^verbatim>\<open>fs.ErrNotExist\<close> and a file that exists
  opens.
\<close>

definition os_Open :: "'b env \<Rightarrow> string \<Rightarrow> 'b world \<Rightarrow> ('b error + 'b file_state) \<times> 'b world" where
  "os_Open env path w =
     (case fault_Open env (trace w) path of
        Some msg \<Rightarrow> (Inl (OSError msg), emit (OpenedForRead path) w)
      | None \<Rightarrow>
          (case fs w path of
             NotExist \<Rightarrow> (Inl ErrNotExist, emit (OpenedForRead path) w)
           | f \<Rightarrow> (Inr f, emit (OpenedForRead path) w)))"

text \<open>
  \<^verbatim>\<open>json.NewDecoder(file).Decode(&c)\<close>: a read error, an incomplete document or a
  document that does not decode is an error.
\<close>

definition Decode :: "'b env \<Rightarrow> string \<Rightarrow> 'b file_state \<Rightarrow> 'b world \<Rightarrow> 'b error + AuthContext" where
  "Decode env path f w =
     (case fault_Read env (trace w) path of
        Some msg \<Rightarrow> Inl (OSError msg)
      | None \<Rightarrow>
          (case f of
             Content b \<Rightarrow>
               (case json_Unmarshal env b of
                  Inl msg \<Rightarrow> Inl (DecodeError msg)
                | Inr c \<Rightarrow> Inr c)
           | _ \<Rightarrow> Inl (DecodeError ''EOF'')))"

text \<open>\<^verbatim>\<open>readConfig\<close> returns a pointer and an error; both can be set.\<close>

definition readConfig ::
  "'b env \<Rightarrow> Auth \<Rightarrow> 'b world \<Rightarrow> (AuthContext option \<times> 'b error option) \<times> 'b world" where
  "readConfig env h w =
     (case os_Open env (configLocation h) w of
        (Inl err, w1) \<Rightarrow>
          (if errors_Is err ErrNotExist then ((Some new_AuthContext, Some ErrNoConfig), w1)
           else ((None, Some (Wrapf ''unable to open ory config file location: %s'' err)), w1))
      | (Inr file, w1) \<Rightarrow>
          (case Decode env (configLocation h) file w1 of
             Inl err \<Rightarrow>
               ((None, Some (Wrapf ''unable to JSON decode the ory config file: %s'' err)), w1)
           | Inr c \<Rightarrow> ((Some c, None), w1)))"

definition SignOut :: "'b env \<Rightarrow> Auth \<Rightarrow> 'b world \<Rightarrow> 'b error option \<times> 'b world" where
  "SignOut env h w = (case WriteConfig env h new_AuthContext w of ((err, c), w1) \<Rightarrow> (err, w1))"

subsection \<open>Calls to the terminal and to the identity API\<close>

definition nl :: string where
  "nl = [CHR 0x0A]"

definition quote :: string where
  "quote = [CHR 0x22]"

text \<open>\<^verbatim>\<open>fmt.Fprintf(h.verboseWriter, format, args...)\<close>; its result is discarded.\<close>

definition Fprintf :: "string \<Rightarrow> string list \<Rightarrow> 'b world \<Rightarrow> 'b world" where
  "Fprintf format args w = emit (Printed format args) w"

definition AskForConfirmation :: "'b env \<Rightarrow> string \<Rightarrow> 'b world \<Rightarrow> bool \<times> 'b world" where
  "AskForConfirmation env prompt w =
     (let a = answer_AskForConfirmation env (trace w) prompt in (a, emit (Asked prompt a) w))"

text \<open>
  \<^verbatim>\<open>renderForm(os.Stdin, h.verboseWriter, ui, method, form)\<close> fills the members of the
  body that \<open>form\<close> points to; the dynamic type of \<open>form\<close> is the caller's.
\<close>

definition renderForm ::
  "'b env \<Rightarrow> UiContainer \<Rightarrow> string \<Rightarrow> form \<Rightarrow> 'b world \<Rightarrow> ('b error + form) \<times> 'b world" where
  "renderForm env ui method form w =
     (let r = answer_renderForm env (trace w) ui method form in
      (case r of Inl err \<Rightarrow> Inl err | Inr members \<Rightarrow> Inr (fst form, members),
       emit (Rendered ui method form r) w))"

definition newConsoleClient :: "'b env \<Rightarrow> 'b world \<Rightarrow> 'b error option \<times> 'b world" where
  "newConsoleClient env w = (answer_newConsoleClient env (trace w), emit NewConsoleClient w)"

definition InitializeSelfServiceRegistrationFlowWithoutBrowser ::
  "'b env \<Rightarrow> 'b world \<Rightarrow> ('b error + Flow) \<times> 'b world" where
  "InitializeSelfServiceRegistrationFlowWithoutBrowser env w =
     (let r = answer_InitRegistration env (trace w) in (r, emit (InitRegistration r) w))"

definition InitializeSelfServiceLoginFlowWithoutBrowser ::
  "'b env \<Rightarrow> string option \<Rightarrow> string option \<Rightarrow> 'b world \<Rightarrow> ('b error + Flow) \<times> 'b world" where
  "InitializeSelfServiceLoginFlowWithoutBrowser env token aal w =
     (let r = answer_InitLogin env (trace w) token aal in (r, emit (InitLogin token aal r) w))"

definition SubmitSelfServiceRegistrationFlow ::
  "'b env \<Rightarrow> string \<Rightarrow> SubmitSelfServiceRegistrationFlowBody \<Rightarrow> 'b world
     \<Rightarrow> ('b error + Successful) \<times> 'b world" where
  "SubmitSelfServiceRegistrationFlow env flow body w =
     (let r = answer_SubmitRegistration env (trace w) flow body in
      (r, emit (SubmittedRegistration flow body r) w))"

definition SubmitSelfServiceLoginFlow ::
  "'b env \<Rightarrow> string \<Rightarrow> string \<Rightarrow> SubmitSelfServiceLoginFlowBody \<Rightarrow> 'b world
     \<Rightarrow> ('b error + Successful) \<times> 'b world" where
  "SubmitSelfServiceLoginFlow env token flow body w =
     (let r = answer_SubmitLogin env (trace w) token flow body in
      (r, emit (SubmittedLogin token flow body r) w))"

definition ToSession_call :: "'b env \<Rightarrow> string \<Rightarrow> 'b world \<Rightarrow> ('b error + Session) \<times> 'b world" where
  "ToSession_call env token w =
     (let r = answer_ToSession env (trace w) token in (r, emit (ToSession token r) w))"

text \<open>\<^verbatim>\<open>stringsx.Coalesce\<close>: the first string that is not empty, else the empty string.\<close>

fun Coalesce :: "string list \<Rightarrow> string" where
  "Coalesce [] = []"
| "Coalesce (s # ss) = (if length s > 0 then s else Coalesce ss)"

text \<open>\<^verbatim>\<open>uuid.FromStringOrNil\<close>.\<close>

definition uuid_FromStringOrNil :: "'b env \<Rightarrow> string \<Rightarrow> UUID" where
  "uuid_FromStringOrNil env input =
     (case uuid_FromString env input of None \<Rightarrow> uuid_Nil | Some u \<Rightarrow> u)"

subsection \<open>From a session to a context\<close>

definition getField :: "'b env \<Rightarrow> json \<Rightarrow> string \<Rightarrow> 'b error + gjson_Result" where
  "getField env i path =
     (case json_Encode_any env i of
        Inl msg \<Rightarrow> Inl (EncodeError msg)
      | Inr b \<Rightarrow> Inr (gjson_GetBytes env b path))"

definition sessionToContext :: "'b env \<Rightarrow> Session \<Rightarrow> string \<Rightarrow> 'b error + AuthContext" where
  "sessionToContext env session token =
     (case getField env (Identity_Traits session) ''email'' of
        Inl err \<Rightarrow> Inl err
      | Inr email \<Rightarrow>
          Inr \<lparr>Version = version, SessionToken = token, SelectedProject = uuid_Nil,
               IdentityTraits =
                 \<lparr>ID = uuid_FromStringOrNil env (Identity_Id session),
                  Email = gjson_String email\<rparr>\<rparr>)"

subsection \<open>Registration\<close>

text \<open>
  The label \<^verbatim>\<open>retryRegistration\<close> of \<^verbatim>\<open>signup\<close> and the code up to the answer to the
  submission. A \<^verbatim>\<open>goto\<close> to the label is the recursive call; a run that jumps for
  ever has the value \<open>None\<close>.
\<close>

partial_function (option) retryRegistration ::
  "'b env \<Rightarrow> Flow \<Rightarrow> bool \<Rightarrow> 'b world \<Rightarrow> (('b failure + Successful) \<times> 'b world) option" where
  "retryRegistration env flow isRetry w =
     (let w1 = (if isRetry
                then Fprintf (nl @ ''Your account creation attempt failed. Please try again!'' @ nl @ nl) [] w
                else w) in
      case renderForm env (Ui flow) ''password'' (RegistrationWithPasswordMethodBody, []) w1 of
        (Inl err, w2) \<Rightarrow> Some (Inl (Error err), w2)
      | (Inr form, w2) \<Rightarrow>
          (case SubmitSelfServiceRegistrationFlow env (flow_Id flow)
                  \<lparr>body_RegistrationWithPasswordMethodBody = Some (snd form)\<rparr> w2 of
             (Inr signup, w3) \<Rightarrow> Some (Inr signup, w3)
           | (Inl err, w3) \<Rightarrow>
               (case err of
                  GenericOpenAPIError b (SelfServiceRegistrationFlow_ptr m) \<Rightarrow>
                    retryRegistration env m True w3
                | GenericOpenAPIError b (SelfServiceRegistrationFlow_val m) \<Rightarrow>
                    retryRegistration env m True w3
                | _ \<Rightarrow> Some (Inl (Error (WithStack err)), w3))))"

definition signup ::
  "'b env \<Rightarrow> 'b world \<Rightarrow> (('b failure + AuthContext option) \<times> 'b world) option" where
  "signup env w =
     (case InitializeSelfServiceRegistrationFlowWithoutBrowser env w of
        (Inl err, w1) \<Rightarrow> Some (Inl (Error err), w1)
      | (Inr flow, w1) \<Rightarrow>
          (case retryRegistration env flow False w1 of
             None \<Rightarrow> None
           | Some (Inl f, w2) \<Rightarrow> Some (Inl f, w2)
           | Some (Inr signup, w2) \<Rightarrow>
               (case SessionToken_ptr signup of
                  None \<Rightarrow> Some (Inl (Panic ''nil pointer dereference''), w2)
                | Some sessionToken \<Rightarrow>
                    (case ToSession_call env sessionToken w2 of
                       (Inl err, w3) \<Rightarrow> Some (Inl (Error err), w3)
                     | (Inr sess, w3) \<Rightarrow>
                         (case sessionToContext env sess sessionToken of
                            Inl err \<Rightarrow> Some (Inl (Error err), w3)
                          | Inr c \<Rightarrow> Some (Inr (Some c), w3))))))"

subsection \<open>Login\<close>

text \<open>The loop over \<^verbatim>\<open>flow.Ui.Nodes\<close> of \<^verbatim>\<open>signin\<close>, on the two flags it sets.\<close>

fun scan_nodes :: "UiNode list \<Rightarrow> bool \<times> bool \<Rightarrow> bool \<times> bool" where
  "scan_nodes [] (foundTOTP, foundLookup) = (foundTOTP, foundLookup)"
| "scan_nodes (n # ns) (foundTOTP, foundLookup) =
     (if Group n = ''totp'' then scan_nodes ns (True, foundLookup)
      else if Group n = ''lookup_secret'' then scan_nodes ns (foundTOTP, True)
      else scan_nodes ns (foundTOTP, foundLookup))"

text \<open>
  The choice of \<open>form\<close> and \<open>method\<close> in \<^verbatim>\<open>signin\<close>, from the declaration of \<open>form\<close> to
  the call of \<^verbatim>\<open>renderForm\<close>.
\<close>

definition negotiate :: "string \<Rightarrow> UiNode list \<Rightarrow> 'b error + (string \<times> form)" where
  "negotiate sessionToken nodes =
     (let form = (LoginWithPasswordMethodBody, []); method = ''password'' in
      if length sessionToken > 0 then
        (case scan_nodes nodes (False, False) of
           (foundTOTP, foundLookup) \<Rightarrow>
             if \<not> foundLookup \<and> \<not> foundTOTP then
               Inl (ErrorsNew
                 ''only TOTP and lookup secrets are supported for two-step verification in the CLI'')
             else
               (let method = ''lookup_secret'' in
                if foundTOTP then Inr (''totp'', (LoginWithTotpMethodBody, []))
                else Inr (method, form)))
      else Inr (method, form))"

text \<open>
  The type switch on \<open>form\<close>: \<open>None\<close> is its default branch, which panics.
\<close>

fun form_to_body :: "form \<Rightarrow> SubmitSelfServiceLoginFlowBody option" where
  "form_to_body (LoginWithTotpMethodBody, e) =
     Some \<lparr>body_WithTotpMethodBody = Some e, body_WithPasswordMethodBody = None\<rparr>"
| "form_to_body (LoginWithPasswordMethodBody, e) =
     Some \<lparr>body_WithTotpMethodBody = None, body_WithPasswordMethodBody = Some e\<rparr>"
| "form_to_body (t, e) = None"

text \<open>
  The label \<^verbatim>\<open>retryLogin\<close> of \<^verbatim>\<open>signin\<close> and the code up to the answer to the
  submission.
\<close>

partial_function (option) retryLogin ::
  "'b env \<Rightarrow> string \<Rightarrow> Flow \<Rightarrow> bool \<Rightarrow> 'b world \<Rightarrow> (('b failure + Successful) \<times> 'b world) option" where
  "retryLogin env sessionToken flow isRetry w =
     (let w1 = (if isRetry
                then Fprintf (nl @ ''Your sign in attempt failed. Please try again!'' @ nl @ nl) [] w
                else w) in
      case negotiate sessionToken (Nodes (Ui flow)) of
        Inl err \<Rightarrow> Some (Inl (Error err), w1)
      | Inr (method, form0) \<Rightarrow>
          (case renderForm env (Ui flow) method form0 w1 of
             (Inl err, w2) \<Rightarrow> Some (Inl (Error err), w2)
           | (Inr form, w2) \<Rightarrow>
               (case form_to_body form of
                  None \<Rightarrow> Some (Inl (Panic ''unexpected type''), w2)
                | Some body \<Rightarrow>
                    (case SubmitSelfServiceLoginFlow env sessionToken (flow_Id flow) body w2 of
                       (Inr login, w3) \<Rightarrow> Some (Inr login, w3)
                     | (Inl err, w3) \<Rightarrow>
                         (case err of
                            GenericOpenAPIError b (SelfServiceLoginFlow_ptr m) \<Rightarrow>
                              retryLogin env sessionToken m True w3
                          | GenericOpenAPIError b (SelfServiceLoginFlow_val m) \<Rightarrow>
                              retryLogin env sessionToken m True w3
                          | _ \<Rightarrow> Some (Inl (Error (WithStack err)), w3))))))"

text \<open>
  The test on the error of the session exchange: a \<^verbatim>\<open>GenericOpenAPIError\<close> whose body
  has \<^verbatim>\<open>error.id\<close> equal to \<^verbatim>\<open>session_aal2_required\<close>.
\<close>

fun aal2_required :: "'b env \<Rightarrow> 'b error \<Rightarrow> bool" where
  "aal2_required env (GenericOpenAPIError b m) =
     (gjson_String (gjson_GetBytes env b ''error.id'') = ''session_aal2_required'')"
| "aal2_required env e = False"

partial_function (option) signin ::
  "'b env \<Rightarrow> string \<Rightarrow> 'b world \<Rightarrow> (('b failure + AuthContext option) \<times> 'b world) option" where
  "signin env sessionToken w =
     (case InitializeSelfServiceLoginFlowWithoutBrowser env
             (if length sessionToken > 0 then Some sessionToken else None)
             (if length sessionToken > 0 then Some ''aal2'' else None) w of
        (Inl err, w1) \<Rightarrow> Some (Inl (Error err), w1)
      | (Inr flow, w1) \<Rightarrow>
          (case retryLogin env sessionToken flow False w1 of
             None \<Rightarrow> None
           | Some (Inl f, w2) \<Rightarrow> Some (Inl f, w2)
           | Some (Inr login, w2) \<Rightarrow>
               (case SessionToken_ptr login of
                  None \<Rightarrow> Some (Inl (Panic ''nil pointer dereference''), w2)
                | Some t \<Rightarrow>
                    (let sessionToken' = Coalesce [t, sessionToken] in
                     case ToSession_call env sessionToken' w2 of
                       (Inr sess, w3) \<Rightarrow>
                         (case sessionToContext env sess sessionToken' of
                            Inl err \<Rightarrow> Some (Inl (Error err), w3)
                          | Inr c \<Rightarrow> Some (Inr (Some c), w3))
                     | (Inl err, w3) \<Rightarrow>
                         if aal2_required env err then signin env sessionToken' w3
                         else Some (Inl (Error err), w3)))))"

subsection \<open>The top level\<close>

text \<open>
  \<^verbatim>\<open>Authenticate\<close> from the call of \<^verbatim>\<open>newConsoleClient\<close> to its end. The variable
  \<open>retry\<close> of the source is never set, so its message is never printed. A nil context
  passed to \<^verbatim>\<open>WriteConfig\<close> would be dereferenced there.
\<close>

definition Authenticate_new ::
  "'b env \<Rightarrow> Auth \<Rightarrow> 'b world \<Rightarrow> (('b failure + AuthContext option) \<times> 'b world) option" where
  "Authenticate_new env h w =
     (case newConsoleClient env w of
        (Some err, w1) \<Rightarrow> Some (Inl (Error err), w1)
      | (None, w1) \<Rightarrow>
          (case AskForConfirmation env
                  ''Do you already have an Ory Console account you wish to use?'' w1 of
             (signIn, w2) \<Rightarrow>
               (case (if signIn then signin env [] w2 else signup env w2) of
                  None \<Rightarrow> None
                | Some (Inl f, w3) \<Rightarrow> Some (Inl f, w3)
                | Some (Inr None, w3) \<Rightarrow> Some (Inl (Panic ''nil pointer dereference''), w3)
                | Some (Inr (Some ac), w3) \<Rightarrow>
                    (case WriteConfig env h ac w3 of
                       ((Some err, ac'), w4) \<Rightarrow> Some (Inl (Error err), w4)
                     | ((None, ac'), w4) \<Rightarrow>
                         Some (Inr (Some ac'),
                               Fprintf (''You are now signed in as: %s'' @ nl)
                                 [Email (IdentityTraits ac')] w4)))))"

definition Authenticate ::
  "'b env \<Rightarrow> Auth \<Rightarrow> 'b world \<Rightarrow> (('b failure + AuthContext option) \<times> 'b world) option" where
  "Authenticate env h w =
     (if noConfirm h then
        Some (Inl (Error (ErrorsNew ''can not sign in or sign up when flag --yes is set.'')), w)
      else
        case readConfig env h w of
          ((ac, Some err), w1) \<Rightarrow>
            (if errors_Is err ErrNoConfig then Some (Inr None, w1)
             else Some (Inl (Error err), w1))
        | ((None, None), w1) \<Rightarrow> Some (Inl (Panic ''nil pointer dereference''), w1)
        | ((Some ac, None), w1) \<Rightarrow>
            (if length (SessionToken ac) > 0 then
               (case AskForConfirmation env
                       (''You are signed in as '' @ quote @ Email (IdentityTraits ac) @ quote
                        @ '' already. Do you wish to authenticate with another account?'') w1 of
                  (another, w2) \<Rightarrow>
                    if \<not> another then Some (Inr (Some ac), w2)
                    else
                      (case SignOut env h (Fprintf (''Ok, signing you out!'' @ nl) [] w2) of
                         (Some err, w3) \<Rightarrow> Some (Inl (Error err), w3)
                       | (None, w3) \<Rightarrow> Authenticate_new env h w3))
             else Authenticate_new env h w1))"

text \<open>
  \<^verbatim>\<open>EnsureContext\<close>. The message printed for a stored session formats the whole
  \<^verbatim>\<open>IdentityTraits\<close> struct; the trace keeps its email.
\<close>

definition EnsureContext ::
  "'b env \<Rightarrow> Auth \<Rightarrow> 'b world \<Rightarrow> (('b failure + AuthContext option) \<times> 'b world) option" where
  "EnsureContext env h w =
     (case readConfig env h w of
        ((c, Some err), w1) \<Rightarrow>
          (if errors_Is err ErrNoConfig then Some (Inr None, w1)
           else Some (Inl (Error err), w1))
      | ((None, None), w1) \<Rightarrow> Some (Inl (Panic ''nil pointer dereference''), w1)
      | ((Some c, None), w1) \<Rightarrow>
          (if length (SessionToken c) > 0 then
             (let w2 = Fprintf ''You are signed in as <%s>.'' [Email (IdentityTraits c)] w1 in
              if noConfirm h then Some (Inr (Some c), w2)
              else
                (case AskForConfirmation env
                        ''Press [y] to continue as that user or [n] to sign into another account.'' w2 of
                   (True, w3) \<Rightarrow> Some (Inr (Some c), w3)
                 | (False, w3) \<Rightarrow>
                     (case SignOut env h w3 of
                        (Some err, w4) \<Rightarrow> Some (Inl (Error err), w4)
                      | (None, w4) \<Rightarrow>
                          (case Authenticate env h w4 of
                             None \<Rightarrow> None
                           | Some (Inl f, w5) \<Rightarrow> Some (Inl f, w5)
                           | Some (Inr c', w5) \<Rightarrow> Some (Inr c', w5)))))
           else
             (case Authenticate env h w1 of
                None \<Rightarrow> None
              | Some (Inl f, w2) \<Rightarrow> Some (Inl f, w2)
              | Some (Inr None, w2) \<Rightarrow> Some (Inl (Panic ''nil pointer dereference''), w2)
              | Some (Inr (Some c'), w2) \<Rightarrow> Some (Inr (Some c'), w2))))"

section \<open>Observations on runs\<close>

text \<open>The kinds of events, and how many calls of a kind a trace holds.\<close>

fun is_Asked :: "'b event \<Rightarrow> bool" where
  "is_Asked (Asked p a) = True" | "is_Asked e = False"

fun is_Rendered :: "'b event \<Rightarrow> bool" where
  "is_Rendered (Rendered u m f r) = True" | "is_Rendered e = False"

fun is_InitRegistration :: "'b event \<Rightarrow> bool" where
  "is_InitRegistration (InitRegistration r) = True" | "is_InitRegistration e = False"

fun is_InitLogin :: "'b event \<Rightarrow> bool" where
  "is_InitLogin (InitLogin t a r) = True" | "is_InitLogin e = False"

fun is_SubmittedRegistration :: "'b event \<Rightarrow> bool" where
  "is_SubmittedRegistration (SubmittedRegistration f b r) = True" | "is_SubmittedRegistration e = False"

fun is_SubmittedLogin :: "'b event \<Rightarrow> bool" where
  "is_SubmittedLogin (SubmittedLogin t f b r) = True" | "is_SubmittedLogin e = False"

fun is_ToSession :: "'b event \<Rightarrow> bool" where
  "is_ToSession (ToSession t r) = True" | "is_ToSession e = False"

text \<open>The flow that the error of a submission carries, if the handler adopts it.\<close>

fun login_replacement :: "'b error \<Rightarrow> Flow option" where
  "login_replacement (GenericOpenAPIError b (SelfServiceLoginFlow_ptr m)) = Some m"
| "login_replacement (GenericOpenAPIError b (SelfServiceLoginFlow_val m)) = Some m"
| "login_replacement e = None"

fun registration_replacement :: "'b error \<Rightarrow> Flow option" where
  "registration_replacement (GenericOpenAPIError b (SelfServiceRegistrationFlow_ptr m)) = Some m"
| "registration_replacement (GenericOpenAPIError b (SelfServiceRegistrationFlow_val m)) = Some m"
| "registration_replacement e = None"

text \<open>The notice that a retry prints before it renders the form again.\<close>

definition retry_notice :: "string \<Rightarrow> bool \<Rightarrow> 'b world \<Rightarrow> 'b world" where
  "retry_notice msg isRetry w = (if isRetry then Fprintf msg [] w else w)"

definition login_notice :: string where
  "login_notice = nl @ ''Your sign in attempt failed. Please try again!'' @ nl @ nl"


text \<open>The events of a run: those that \<open>w'\<close> has after the trace of \<open>w\<close>.\<close>

definition since :: "'b world \<Rightarrow> 'b world \<Rightarrow> 'b event list" where
  "since w w' = drop (length (trace w)) (trace w')"

fun submitted_flows :: "'b event list \<Rightarrow> string list" where
  "submitted_flows [] = []"
| "submitted_flows (SubmittedRegistration f b r # es) = f # submitted_flows es"
| "submitted_flows (SubmittedLogin t f b r # es) = f # submitted_flows es"
| "submitted_flows (e # es) = submitted_flows es"

fun replacement_flows :: "'b event list \<Rightarrow> Flow list" where
  "replacement_flows [] = []"
| "replacement_flows (SubmittedRegistration f b (Inl err) # es) =
     (case registration_replacement err of
        Some m \<Rightarrow> m # replacement_flows es
      | None \<Rightarrow> replacement_flows es)"
| "replacement_flows (SubmittedLogin t f b (Inl err) # es) =
     (case login_replacement err of
        Some m \<Rightarrow> m # replacement_flows es
      | None \<Rightarrow> replacement_flows es)"
| "replacement_flows (e # es) = replacement_flows es"

fun rendered_uis :: "'b event list \<Rightarrow> UiContainer list" where
  "rendered_uis [] = []"
| "rendered_uis (Rendered ui m f r # es) = ui # rendered_uis es"
| "rendered_uis (e # es) = rendered_uis es"

fun rendered_methods :: "'b event list \<Rightarrow> string list" where
  "rendered_methods [] = []"
| "rendered_methods (Rendered ui m f r # es) = m # rendered_methods es"
| "rendered_methods (e # es) = rendered_methods es"

text \<open>The events that the retry loops emit.\<close>

fun loop_event :: "'b event \<Rightarrow> bool" where
  "loop_event (Printed m a) = True"
| "loop_event (Rendered ui m f r) = True"
| "loop_event (SubmittedRegistration f b r) = True"
| "loop_event (SubmittedLogin t f b r) = True"
| "loop_event e = False"

definition has_group :: "string \<Rightarrow> UiNode list \<Rightarrow> bool" where
  "has_group g nodes = (\<exists>n \<in> set nodes. Group n = g)"

definition unsupported_second_factor :: "'b error" where
  "unsupported_second_factor =
     ErrorsNew ''only TOTP and lookup secrets are supported for two-step verification in the CLI''"



text \<open>The invariant of a context: a session token comes with an email.\<close>

definition ctx_ok :: "AuthContext \<Rightarrow> bool" where
  "ctx_ok c = (SessionToken c \<noteq> [] \<longrightarrow> Email (IdentityTraits c) \<noteq> [])"

definition session_has_email :: "'b env \<Rightarrow> Session \<Rightarrow> bool" where
  "session_has_email env sess =
     (case getField env (Identity_Traits sess) ''email'' of
        Inl err \<Rightarrow> False
      | Inr r \<Rightarrow> gjson_String r \<noteq> [])"

section \<open>A scripted environment\<close>

text \<open>
  A concrete environment on which the model runs. Encoded documents are JSON values; the
  lookup of a path gives the text of the string or boolean found there. The identity API
  and the terminal answer their \<open>n\<close>-th call with the \<open>n\<close>-th entry of a script, and with a
  refusal once the script is used up; the file system has no faults.
\<close>

fun member :: "json \<Rightarrow> string \<Rightarrow> json option" where
  "member (JObject ms) k = map_of ms k"
| "member j k = None"

fun split_path :: "string \<Rightarrow> string list" where
  "split_path [] = [[]]"
| "split_path (c # cs) =
     (if c = CHR ''.'' then [] # split_path cs
      else (case split_path cs of [] \<Rightarrow> [[c]] | p # ps \<Rightarrow> (c # p) # ps))"

fun lookup_path :: "json \<Rightarrow> string list \<Rightarrow> json option" where
  "lookup_path j [] = Some j"
| "lookup_path j (k # ks) = (case member j k of None \<Rightarrow> None | Some v \<Rightarrow> lookup_path v ks)"

fun leaf_text :: "json option \<Rightarrow> string" where
  "leaf_text (Some (JString s)) = s"
| "leaf_text (Some (JBool b)) = (if b then ''true'' else ''false'')"
| "leaf_text j = []"

definition demo_GetBytes :: "json \<Rightarrow> string \<Rightarrow> gjson_Result" where
  "demo_GetBytes b path = Result (leaf_text (lookup_path b (split_path path)))"

definition demo_Marshal :: "AuthContext \<Rightarrow> json" where
  "demo_Marshal c =
     JObject
       [(''version'', JString (Version c)),
        (''session_token'', JString (SessionToken c)),
        (''selected_project'', JNumber (uint (SelectedProject c))),
        (''session_identity_traits'',
         JObject [(''ID'', JNumber (uint (ID (IdentityTraits c)))),
                  (''email'', JString (Email (IdentityTraits c)))])]"

definition demo_Unmarshal :: "json \<Rightarrow> string + AuthContext" where
  "demo_Unmarshal b =
     (case (member b ''version'', member b ''session_token'', member b ''selected_project'',
            lookup_path b [''session_identity_traits'', ''ID''],
            lookup_path b [''session_identity_traits'', ''email'']) of
        (Some (JString v), Some (JString t), Some (JNumber p), Some (JNumber i), Some (JString e)) \<Rightarrow>
          Inr \<lparr>Version = v, SessionToken = t, SelectedProject = word_of_int p,
               IdentityTraits = \<lparr>ID = word_of_int i, Email = e\<rparr>\<rparr>
      | _ \<Rightarrow> Inl ''cannot unmarshal into Go value of type cloudx.AuthContext'')"

text \<open>The \<open>n\<close>-th answer of a script, or the default once the script is used up.\<close>

definition nth_answer :: "'a \<Rightarrow> 'a list \<Rightarrow> nat \<Rightarrow> 'a" where
  "nth_answer d xs n = (if n < length xs then xs ! n else d)"

definition calls :: "('b event \<Rightarrow> bool) \<Rightarrow> 'b event list \<Rightarrow> nat" where
  "calls P tr = length (filter P tr)"

record script =
  on_Ask :: "bool list"
  on_render :: "(json error + fields) list"
  on_InitRegistration :: "(json error + Flow) list"
  on_InitLogin :: "(json error + Flow) list"
  on_SubmitRegistration :: "(json error + Successful) list"
  on_SubmitLogin :: "(json error + Successful) list"
  on_ToSession :: "(json error + Session) list"

definition unreachable :: "json error" where
  "unreachable = OtherError ''connection refused''"

definition scripted :: "script \<Rightarrow> json env" where
  "scripted s =
     \<lparr>json_Marshal = demo_Marshal,
      json_Unmarshal = demo_Unmarshal,
      json_Encode_any = Inr,
      gjson_GetBytes = demo_GetBytes,
      uuid_FromString = (\<lambda>input. None),
      fault_OpenFile = (\<lambda>tr path. None),
      fault_Write = (\<lambda>tr path. None),
      fault_Open = (\<lambda>tr path. None),
      fault_Read = (\<lambda>tr path. None),
      answer_AskForConfirmation = (\<lambda>tr prompt. nth_answer False (on_Ask s) (calls is_Asked tr)),
      answer_renderForm =
        (\<lambda>tr ui method form. nth_answer (Inl (OtherError ''EOF'')) (on_render s) (calls is_Rendered tr)),
      answer_newConsoleClient = (\<lambda>tr. None),
      answer_InitRegistration =
        (\<lambda>tr. nth_answer (Inl unreachable) (on_InitRegistration s) (calls is_InitRegistration tr)),
      answer_InitLogin =
        (\<lambda>tr token aal. nth_answer (Inl unreachable) (on_InitLogin s) (calls is_InitLogin tr)),
      answer_SubmitRegistration =
        (\<lambda>tr flow body.
           nth_answer (Inl unreachable) (on_SubmitRegistration s) (calls is_SubmittedRegistration tr)),
      answer_SubmitLogin =
        (\<lambda>tr token flow body.
           nth_answer (Inl unreachable) (on_SubmitLogin s) (calls is_SubmittedLogin tr)),
      answer_ToSession =
        (\<lambda>tr token. nth_answer (Inl unreachable) (on_ToSession s) (calls is_ToSession tr))\<rparr>"

text \<open>A handler, worlds, flows and scripts to run the model on.\<close>

definition h0 :: Auth where
  "h0 = \<lparr>configLocation = ''/home/u/.ory-cloud.json'', noConfirm = False\<rparr>"

definition w0 :: "json world" where
  "w0 = \<lparr>fs = (\<lambda>path. NotExist), trace = []\<rparr>"

definition pw_node :: UiNode where "pw_node = \<lparr>Group = ''password'', Attributes = ''password''\<rparr>"

definition totp_node :: UiNode where "totp_node = \<lparr>Group = ''totp'', Attributes = ''totp_code''\<rparr>"

definition lookup_node :: UiNode where
  "lookup_node = \<lparr>Group = ''lookup_secret'', Attributes = ''lookup_secret''\<rparr>"

definition flowT :: Flow where
  "flowT = \<lparr>flow_Id = ''flow-t'', Ui = \<lparr>Action = ''/login'', Nodes = [lookup_node, totp_node]\<rparr>\<rparr>"

definition flowL :: Flow where
  "flowL = \<lparr>flow_Id = ''flow-l'', Ui = \<lparr>Action = ''/login'', Nodes = [pw_node, lookup_node]\<rparr>\<rparr>"

definition ctx1 :: AuthContext where
  "ctx1 = \<lparr>Version = [], SessionToken = ''tok1'', SelectedProject = uuid_Nil,
           IdentityTraits = \<lparr>ID = uuid_Nil, Email = ''a@example.com''\<rparr>\<rparr>"

definition flowA :: Flow where "flowA = \<lparr>flow_Id = ''flow-a'', Ui = \<lparr>Action = ''/login'', Nodes = [pw_node]\<rparr>\<rparr>"

definition flowB :: Flow where "flowB = \<lparr>flow_Id = ''flow-b'', Ui = \<lparr>Action = ''/login'', Nodes = [pw_node]\<rparr>\<rparr>"

definition s1 :: script where
  "s1 = \<lparr>on_Ask = [True], on_render = [Inr [(''password'', ''x'')], Inr [(''password'', ''y'')]],
         on_InitRegistration = [], on_InitLogin = [Inr flowA],
         on_SubmitRegistration = [],
         on_SubmitLogin = [Inl (GenericOpenAPIError JNull (SelfServiceLoginFlow_ptr flowB)), Inr \<lparr>SessionToken_ptr = Some ''tok''\<rparr>],
         on_ToSession = [Inr \<lparr>Identity_Id = ''id'', Identity_Traits = JObject [(''email'', JString ''a@example.com'')]\<rparr>]\<rparr>"

definition w_trunc :: "json world" where
  "w_trunc = \<lparr>fs = (\<lambda>path. if path = configLocation h0 then Truncated else NotExist), trace = []\<rparr>"

definition h_nested :: Auth where
  "h_nested = \<lparr>configLocation = ''/home/u/f/x'', noConfirm = False\<rparr>"

definition w_nested :: "json world" where
  "w_nested = \<lparr>fs = (\<lambda>path. if path = ''/home/u/f'' then Truncated else NotExist), trace = []\<rparr>"

definition refusing :: "json env" where
  "refusing =
     (scripted s1)
       \<lparr>fault_Open := (\<lambda>tr path. if path = ''/home/u/f/x'' then Some ''not a directory'' else None)\<rparr>"



definition w_stored :: "json world" where
  "w_stored =
     \<lparr>fs = (\<lambda>path. if path = configLocation h0
                    then Content (demo_Marshal (ctx1\<lparr>Version := ''v0alpha0''\<rparr>)) else NotExist),
      trace = []\<rparr>"

definition w_signed_out :: "json world" where
  "w_signed_out =
     \<lparr>fs = (\<lambda>path. if path = configLocation h0
                    then Content (demo_Marshal (new_AuthContext\<lparr>Version := ''v0alpha0''\<rparr>)) else NotExist),
      trace = []\<rparr>"

definition aal2_body :: json where
  "aal2_body = JObject [(''error'', JObject [(''id'', JString ''session_aal2_required'')])]"

definition session1 :: Session where
  "session1 = \<lparr>Identity_Id = ''id'', Identity_Traits = JObject [(''email'', JString ''a@example.com'')]\<rparr>"

definition s_stepup :: script where
  "s_stepup =
     \<lparr>on_Ask = [True],
      on_render = [Inr [(''password'', ''x'')], Inr [(''totp_code'', ''123456'')]],
      on_InitRegistration = [], on_InitLogin = [Inr flowA, Inr flowT],
      on_SubmitRegistration = [],
      on_SubmitLogin = [Inr \<lparr>SessionToken_ptr = Some ''tok1''\<rparr>, Inr \<lparr>SessionToken_ptr = Some []\<rparr>],
      on_ToSession = [Inl (GenericOpenAPIError aal2_body OtherModel), Inr session1]\<rparr>"

definition ctx_signed_in :: AuthContext where
  "ctx_signed_in =
     \<lparr>Version = ''v0alpha0'', SessionToken = ''tok1'', SelectedProject = uuid_Nil,
      IdentityTraits = \<lparr>ID = uuid_Nil, Email = ''a@example.com''\<rparr>\<rparr>"

definition inactive_body :: json where
  "inactive_body = JObject [(''error'', JObject [(''id'', JString ''session_inactive'')])]"

definition s_inactive :: script where
  "s_inactive =
     \<lparr>on_Ask = [True],
      on_render = [Inr [(''password'', ''x'')]],
      on_InitRegistration = [], on_InitLogin = [Inr flowA],
      on_SubmitRegistration = [],
      on_SubmitLogin = [Inr \<lparr>SessionToken_ptr = Some ''tok1''\<rparr>],
      on_ToSession = [Inl (GenericOpenAPIError inactive_body OtherModel)]\<rparr>"

definition s_offline :: script where
  "s_offline =
     \<lparr>on_Ask = [True],
      on_render = [Inr [(''password'', ''x'')]],
      on_InitRegistration = [], on_InitLogin = [Inr flowA],
      on_SubmitRegistration = [],
      on_SubmitLogin = [Inr \<lparr>SessionToken_ptr = Some ''tok1''\<rparr>],
      on_ToSession = []\<rparr>"

definition s_noemail :: script where
  "s_noemail =
     \<lparr>on_Ask = [True],
      on_render = [Inr [(''password'', ''x'')]],
      on_InitRegistration = [], on_InitLogin = [Inr flowA],
      on_SubmitRegistration = [],
      on_SubmitLogin = [Inr \<lparr>SessionToken_ptr = Some ''tok1''\<rparr>],
      on_ToSession = [Inr \<lparr>Identity_Id = ''id'', Identity_Traits = JObject [(''username'', JString ''a'')]\<rparr>]\<rparr>"

definition ctx_noemail :: AuthContext where
  "ctx_noemail =
     \<lparr>Version = ''v0alpha0'', SessionToken = ''tok1'', SelectedProject = uuid_Nil,
      IdentityTraits = \<lparr>ID = uuid_Nil, Email = []\<rparr>\<rparr>"

section \<open>Properties\<close>

lemmas call_defs = emit_def Fprintf_def AskForConfirmation_def renderForm_def newConsoleClient_def
  InitializeSelfServiceRegistrationFlowWithoutBrowser_def InitializeSelfServiceLoginFlowWithoutBrowser_def
  SubmitSelfServiceRegistrationFlow_def SubmitSelfServiceLoginFlow_def ToSession_call_def
  os_OpenFile_def Encode_def os_Open_def Decode_def Let_def

lemma scripted_sel:
  "json_Marshal (scripted s) = demo_Marshal"
  "json_Unmarshal (scripted s) = demo_Unmarshal"
  "json_Encode_any (scripted s) = Inr"
  "gjson_GetBytes (scripted s) = demo_GetBytes"
  "uuid_FromString (scripted s) = (\<lambda>input. None)"
  "fault_OpenFile (scripted s) tr p = None"
  "fault_Write (scripted s) tr p = None"
  "fault_Open (scripted s) tr p = None"
  "fault_Read (scripted s) tr p = None"
  "answer_AskForConfirmation (scripted s) tr prompt = nth_answer False (on_Ask s) (calls is_Asked tr)"
  "answer_renderForm (scripted s) tr ui method form = nth_answer (Inl (OtherError ''EOF'')) (on_render s) (calls is_Rendered tr)"
  "answer_newConsoleClient (scripted s) tr = None"
  "answer_InitRegistration (scripted s) tr = nth_answer (Inl unreachable) (on_InitRegistration s) (calls is_InitRegistration tr)"
  "answer_InitLogin (scripted s) tr token aal = nth_answer (Inl unreachable) (on_InitLogin s) (calls is_InitLogin tr)"
  "answer_SubmitRegistration (scripted s) tr flow body = nth_answer (Inl unreachable) (on_SubmitRegistration s) (calls is_SubmittedRegistration tr)"
  "answer_SubmitLogin (scripted s) tr tok flow lbody = nth_answer (Inl unreachable) (on_SubmitLogin s) (calls is_SubmittedLogin tr)"
  "answer_ToSession (scripted s) tr tok = nth_answer (Inl unreachable) (on_ToSession s) (calls is_ToSession tr)"
  by (simp_all add: scripted_def)

lemma s1_sel:
  "on_Ask s1 = [True]" "on_render s1 = [Inr [(''password'', ''x'')], Inr [(''password'', ''y'')]]"
  "on_InitLogin s1 = [Inr flowA]"
  "on_SubmitLogin s1 = [Inl (GenericOpenAPIError JNull (SelfServiceLoginFlow_ptr flowB)), Inr \<lparr>SessionToken_ptr = Some ''tok''\<rparr>]"
  "on_ToSession s1 = [Inr \<lparr>Identity_Id = ''id'', Identity_Traits = JObject [(''email'', JString ''a@example.com'')]\<rparr>]"
  by (simp_all add: s1_def)

lemmas demo_defs = scripted_sel nth_answer_def calls_def demo_GetBytes_def demo_Marshal_def demo_Unmarshal_def
  h0_def w0_def unreachable_def

subsection \<open>The retry loops, case by case\<close>

lemma login_notice_fold:
  "(if isRetry
    then Fprintf (nl @ ''Your sign in attempt failed. Please try again!'' @ nl @ nl) [] w
    else w) = retry_notice login_notice isRetry w"
  by (unfold retry_notice_def login_notice_def) (rule refl)

lemma retryLogin_cases [consumes 1, case_names NoMethod RenderError UnexpectedType Success Retry Fatal]:
  fixes env :: "'b env"
  assumes run: "retryLogin env tok flow isRetry w = Some y"
    and NoMethod: "\<And>flow isRetry w err.
      negotiate tok (Nodes (Ui flow)) = Inl err \<Longrightarrow>
      P flow isRetry w (Inl (Error err), retry_notice login_notice isRetry w)"
    and RenderError: "\<And>flow isRetry w method form0 err w2.
      negotiate tok (Nodes (Ui flow)) = (Inr (method, form0) :: 'b error + (string \<times> form)) \<Longrightarrow>
      renderForm env (Ui flow) method form0 (retry_notice login_notice isRetry w) = (Inl err, w2) \<Longrightarrow>
      P flow isRetry w (Inl (Error err), w2)"
    and UnexpectedType: "\<And>flow isRetry w method form0 form w2.
      negotiate tok (Nodes (Ui flow)) = (Inr (method, form0) :: 'b error + (string \<times> form)) \<Longrightarrow>
      renderForm env (Ui flow) method form0 (retry_notice login_notice isRetry w) = (Inr form, w2) \<Longrightarrow>
      form_to_body form = None \<Longrightarrow>
      P flow isRetry w (Inl (Panic ''unexpected type''), w2)"
    and Success: "\<And>flow isRetry w method form0 form w2 body login w3.
      negotiate tok (Nodes (Ui flow)) = (Inr (method, form0) :: 'b error + (string \<times> form)) \<Longrightarrow>
      renderForm env (Ui flow) method form0 (retry_notice login_notice isRetry w) = (Inr form, w2) \<Longrightarrow>
      form_to_body form = Some body \<Longrightarrow>
      SubmitSelfServiceLoginFlow env tok (flow_Id flow) body w2 = (Inr login, w3) \<Longrightarrow>
      P flow isRetry w (Inr login, w3)"
    and Retry: "\<And>flow isRetry w method form0 form w2 body err w3 m y.
      negotiate tok (Nodes (Ui flow)) = (Inr (method, form0) :: 'b error + (string \<times> form)) \<Longrightarrow>
      renderForm env (Ui flow) method form0 (retry_notice login_notice isRetry w) = (Inr form, w2) \<Longrightarrow>
      form_to_body form = Some body \<Longrightarrow>
      SubmitSelfServiceLoginFlow env tok (flow_Id flow) body w2 = (Inl err, w3) \<Longrightarrow>
      login_replacement err = Some m \<Longrightarrow>
      P m True w3 y \<Longrightarrow>
      P flow isRetry w y"
    and Fatal: "\<And>flow isRetry w method form0 form w2 body err w3.
      negotiate tok (Nodes (Ui flow)) = (Inr (method, form0) :: 'b error + (string \<times> form)) \<Longrightarrow>
      renderForm env (Ui flow) method form0 (retry_notice login_notice isRetry w) = (Inr form, w2) \<Longrightarrow>
      form_to_body form = Some body \<Longrightarrow>
      SubmitSelfServiceLoginFlow env tok (flow_Id flow) body w2 = (Inl err, w3) \<Longrightarrow>
      login_replacement err = None \<Longrightarrow>
      P flow isRetry w (Inl (Error (WithStack err)), w3)"
  shows "P flow isRetry w y"
proof -
  have "env' = env \<longrightarrow> tok' = tok \<longrightarrow> P flow isRetry w y"
    if "retryLogin env' tok' flow isRetry w = Some y" for env' tok'
  proof (rule retryLogin.raw_induct[where P = "\<lambda>env' tok' flow isRetry w y.
            env' = env \<longrightarrow> tok' = tok \<longrightarrow> P flow isRetry w y", OF _ that], goal_cases)
    case (1 f env' tok' flow isRetry w y)
    show ?case
    proof (intro impI)
      assume e: "env' = env" and t: "tok' = tok"
      note body = "1"(2)[unfolded e t Let_def login_notice_fold]
      note IH = "1"(1)[rule_format]
      show "P flow isRetry w y"
      proof (cases "negotiate tok (Nodes (Ui flow)) :: 'b error + (string \<times> form)")
        case (Inl err)
        with body NoMethod[OF Inl, of isRetry w] show ?thesis
          by simp
      next
        case (Inr mf)
        obtain meth form0 where mf: "mf = (meth, form0)" by (cases mf)
        note neg = Inr[unfolded mf]
        obtain r w2 where rf: "renderForm env (Ui flow) meth form0 (retry_notice login_notice isRetry w) = (r, w2)"
          by (cases "renderForm env (Ui flow) meth form0 (retry_notice login_notice isRetry w)")
        show ?thesis
        proof (cases r)
          case (Inl err)
          with body neg rf RenderError[OF neg rf[unfolded Inl]] show ?thesis
            by simp
        next
          case (Inr form)
          note rf' = rf[unfolded Inr]
          show ?thesis
          proof (cases "form_to_body form")
            case None
            with body neg rf' UnexpectedType[OF neg rf' None] show ?thesis
              by simp
          next
            case (Some lbody)
            obtain a w3 where sb: "SubmitSelfServiceLoginFlow env tok (flow_Id flow) lbody w2 = (a, w3)"
              by (cases "SubmitSelfServiceLoginFlow env tok (flow_Id flow) lbody w2")
            show ?thesis
            proof (cases a)
              case (Inr login)
              with body neg rf' Some sb Success[OF neg rf' Some sb[unfolded Inr]] show ?thesis
                by simp
            next
              case (Inl err)
              note sb' = sb[unfolded Inl]
              show ?thesis
              proof (cases "login_replacement err")
                case None
                have "y = (Inl (Error (WithStack err)), w3)"
                  using body neg rf' Some sb' None
                  by (cases err rule: login_replacement.cases)
                     simp_all
                with Fatal[OF neg rf' Some sb' None] show ?thesis by simp
              next
                case (Some m)
                have "f env tok m True w3 = Some y"
                  using body neg rf' \<open>form_to_body form = Some lbody\<close> sb' Some
                  by (cases err rule: login_replacement.cases)
                     simp_all
                from IH[OF this] have "P m True w3 y" by simp
                from Retry[OF neg rf' \<open>form_to_body form = Some lbody\<close> sb' Some this]
                show ?thesis .
              qed
            qed
          qed
        qed
      qed
    qed
  qed
  from this[OF run] show ?thesis by simp
qed

subsection \<open>The config store\<close>

lemma WriteConfig_result:
  "WriteConfig env h c w =
     (case fault_OpenFile env (trace w) (configLocation h) of
        Some msg \<Rightarrow>
          ((Some (Wrapf ''unable to open file for writing at location: %s'' (OSError msg)),
            c\<lparr>Version := version\<rparr>),
           w\<lparr>trace := trace w @ [OpenedForWrite (configLocation h)]\<rparr>)
      | None \<Rightarrow>
          (case fault_Write env (trace w @ [OpenedForWrite (configLocation h)]) (configLocation h) of
             Some msg \<Rightarrow>
               ((Some (Wrapf ''unable to write configuration to file: %s'' (OSError msg)),
                 c\<lparr>Version := version\<rparr>),
                w\<lparr>fs := (fs w)(configLocation h := Truncated),
                  trace := trace w @ [OpenedForWrite (configLocation h), Written (configLocation h)]\<rparr>)
           | None \<Rightarrow>
               ((None, c\<lparr>Version := version\<rparr>),
                w\<lparr>fs := (fs w)(configLocation h := Content (json_Marshal env (c\<lparr>Version := version\<rparr>))),
                  trace := trace w @ [OpenedForWrite (configLocation h), Written (configLocation h)]\<rparr>)))"
  by (simp add: WriteConfig_def os_OpenFile_def Encode_def emit_def Let_def split: option.splits)

lemma WriteConfig_ok:
  assumes "WriteConfig env h c w = ((None, c'), w')"
  shows "c' = c\<lparr>Version := version\<rparr>"
    and "fs w' = (fs w)(configLocation h := Content (json_Marshal env (c\<lparr>Version := version\<rparr>)))"
    and "trace w' = trace w @ [OpenedForWrite (configLocation h), Written (configLocation h)]"
  using assms unfolding WriteConfig_result by (auto split: option.splits)

lemma WriteConfig_any:
  assumes "WriteConfig env h c w = ((err, c'), w')"
  shows "c' = c\<lparr>Version := version\<rparr>"
    and "fs w' (configLocation h) = fs w (configLocation h) \<or> fs w' (configLocation h) = Truncated
         \<or> fs w' (configLocation h) = Content (json_Marshal env (c\<lparr>Version := version\<rparr>))"
    and "path \<noteq> configLocation h \<Longrightarrow> fs w' path = fs w path"
    and "filter is_network (trace w') = filter is_network (trace w)"
  using assms unfolding WriteConfig_result by (auto split: option.splits)

lemma readConfig_Content:
  assumes "fs w (configLocation h) = Content b"
    and "fault_Open env (trace w) (configLocation h) = None"
    and "fault_Read env (trace w @ [OpenedForRead (configLocation h)]) (configLocation h) = None"
    and "json_Unmarshal env b = Inr c"
  shows "readConfig env h w = ((Some c, None), w\<lparr>trace := trace w @ [OpenedForRead (configLocation h)]\<rparr>)"
  using assms by (simp add: readConfig_def os_Open_def Decode_def emit_def)

lemma readConfig_NotExist:
  assumes "fs w (configLocation h) = NotExist"
    and "fault_Open env (trace w) (configLocation h) = None"
  shows "readConfig env h w =
    ((Some new_AuthContext, Some ErrNoConfig), w\<lparr>trace := trace w @ [OpenedForRead (configLocation h)]\<rparr>)"
  using assms by (simp add: readConfig_def os_Open_def emit_def)

lemma os_Open_ErrNotExist:
  "(\<exists>err. fst (os_Open env path w) = Inl err \<and> errors_Is err ErrNotExist) =
     (fs w path = NotExist \<and> fault_Open env (trace w) path = None)"
  by (auto simp: os_Open_def split: option.splits file_state.splits)

lemma os_Open_fault:
  assumes "fault_Open env (trace w) path = Some msg"
  shows "os_Open env path w = (Inl (OSError msg), emit (OpenedForRead path) w)"
  using assms by (simp add: os_Open_def)

lemma readConfig_open_error:
  assumes "os_Open env (configLocation h) w = (Inl err, w1)"
  shows "errors_Is err ErrNotExist \<Longrightarrow>
           readConfig env h w = ((Some new_AuthContext, Some ErrNoConfig), w1)"
    and "\<not> errors_Is err ErrNotExist \<Longrightarrow>
           readConfig env h w =
             ((None, Some (Wrapf ''unable to open ory config file location: %s'' err)), w1)"
  using assms by (simp_all add: readConfig_def)

lemma readConfig_error_not_NoConfig:
  assumes "\<not> (\<exists>err. fst (os_Open env (configLocation h) w) = Inl err \<and> errors_Is err ErrNotExist)"
    and "readConfig env h w = ((c, Some e), w')"
  shows "\<not> errors_Is e ErrNoConfig" and "c = None"
  using assms
  by (auto simp: readConfig_def os_Open_def Decode_def emit_def
           split: file_state.splits option.splits sum.splits)

text \<open>
  C6. Loading the config gives the sentinel \<open>ErrNoConfig\<close> (beside a zero context) exactly
  when \<^verbatim>\<open>os.Open\<close> fails with an error that \<^verbatim>\<open>errors.Is\<close> matches with
  \<^verbatim>\<open>fs.ErrNotExist\<close>, that is when the file is absent and the system does not refuse the
  open for another reason. Every other error of \<open>readConfig\<close>, from opening, reading or
  decoding, is not \<open>ErrNoConfig\<close> under \<open>errors_Is\<close> and comes with a nil context; in
  particular an absent file whose open the system refuses (under a path component that
  is not a directory, say) gives the wrapped error of the open, not the sentinel.
\<close>

theorem readConfig_NoConfig_iff_ErrNotExist:
  "((\<exists>err. fst (os_Open env (configLocation h) w) = Inl err \<and> errors_Is err ErrNotExist) \<longrightarrow>
      fst (readConfig env h w) = (Some new_AuthContext, Some ErrNoConfig)) \<and>
   (\<not> (\<exists>err. fst (os_Open env (configLocation h) w) = Inl err \<and> errors_Is err ErrNotExist) \<longrightarrow>
      (\<forall>e. snd (fst (readConfig env h w)) = Some e \<longrightarrow>
           \<not> errors_Is e ErrNoConfig \<and> fst (fst (readConfig env h w)) = None)) \<and>
   ((\<exists>err. fst (os_Open env (configLocation h) w) = Inl err \<and> errors_Is err ErrNotExist) =
      (fs w (configLocation h) = NotExist \<and> fault_Open env (trace w) (configLocation h) = None)) \<and>
   (\<forall>msg. fault_Open env (trace w) (configLocation h) = Some msg \<longrightarrow>
      fst (readConfig env h w) =
        (None, Some (Wrapf ''unable to open ory config file location: %s'' (OSError msg))) \<and>
      \<not> errors_Is (Wrapf ''unable to open ory config file location: %s'' (OSError msg) :: 'b error)
           ErrNoConfig)"
proof (intro conjI impI allI)
  assume "\<exists>err. fst (os_Open env (configLocation h) w) = Inl err \<and> errors_Is err ErrNotExist"
  then obtain err w1 where o: "os_Open env (configLocation h) w = (Inl err, w1)"
    and i: "errors_Is err ErrNotExist"
    by (cases "os_Open env (configLocation h) w") auto
  from readConfig_open_error(1)[OF o i]
  show "fst (readConfig env h w) = (Some new_AuthContext, Some ErrNoConfig)" by simp
next
  fix e
  assume ex: "\<not> (\<exists>err. fst (os_Open env (configLocation h) w) = Inl err \<and> errors_Is err ErrNotExist)"
    and e: "snd (fst (readConfig env h w)) = Some e"
  obtain c w' where r: "readConfig env h w = ((c, Some e), w')"
    using e by (cases "readConfig env h w") auto
  from readConfig_error_not_NoConfig[OF ex r]
  show "\<not> errors_Is e ErrNoConfig" and "fst (fst (readConfig env h w)) = None"
    by (simp_all add: r)
next
  show "(\<exists>err. fst (os_Open env (configLocation h) w) = Inl err \<and> errors_Is err ErrNotExist) =
      (fs w (configLocation h) = NotExist \<and> fault_Open env (trace w) (configLocation h) = None)"
    by (rule os_Open_ErrNotExist)
next
  fix msg
  assume f: "fault_Open env (trace w) (configLocation h) = Some msg"
  from readConfig_open_error(2)[OF os_Open_fault[OF f]]
  show "fst (readConfig env h w) =
        (None, Some (Wrapf ''unable to open ory config file location: %s'' (OSError msg)))"
    by simp
  show "\<not> errors_Is (Wrapf ''unable to open ory config file location: %s'' (OSError msg) :: 'b error)
           ErrNoConfig"
    by simp
qed

theorem readConfig_NoConfig_iff_ErrNotExist_witness:
  "fst (readConfig (scripted s1) h0 w0) = (Some new_AuthContext, Some ErrNoConfig) \<and>
   snd (fst (readConfig (scripted s1) h0 w_trunc)) =
     Some (Wrapf ''unable to JSON decode the ory config file: %s'' (DecodeError ''EOF'')) \<and>
   \<not> errors_Is (Wrapf ''unable to JSON decode the ory config file: %s'' (DecodeError ''EOF'') :: json error)
        ErrNoConfig \<and>
   fst (readConfig refusing h_nested w_nested) =
     (None, Some (Wrapf ''unable to open ory config file location: %s'' (OSError ''not a directory'')))"
proof -
  have a: "\<exists>err. fst (os_Open (scripted s1) (configLocation h0) w0) = Inl err \<and> errors_Is err ErrNotExist"
    by (simp add: os_Open_ErrNotExist w0_def scripted_sel)
  have b: "\<not> (\<exists>err. fst (os_Open (scripted s1) (configLocation h0) w_trunc) = Inl err \<and>
                errors_Is err ErrNotExist)"
    by (simp add: os_Open_ErrNotExist w_trunc_def)
  have c: "snd (fst (readConfig (scripted s1) h0 w_trunc)) =
     Some (Wrapf ''unable to JSON decode the ory config file: %s'' (DecodeError ''EOF''))"
    by (simp add: readConfig_def os_Open_def Decode_def emit_def w_trunc_def scripted_sel)
  have d: "fault_Open refusing (trace w_nested) (configLocation h_nested) = Some ''not a directory''"
    by (simp add: refusing_def h_nested_def)
  note A = readConfig_NoConfig_iff_ErrNotExist[where env = "scripted s1" and h = h0 and w = w0]
  note B = readConfig_NoConfig_iff_ErrNotExist[where env = "scripted s1" and h = h0 and w = w_trunc]
  note C = readConfig_NoConfig_iff_ErrNotExist[where env = refusing and h = h_nested and w = w_nested]
  from A[THEN conjunct1, rule_format, OF a]
       B[THEN conjunct2, THEN conjunct1, rule_format, OF b c] c
       C[THEN conjunct2, THEN conjunct2, THEN conjunct2, rule_format, OF d, THEN conjunct1]
  show ?thesis by simp
qed

theorem absent_file_refused_open_counterexample:
  "fs w_nested (configLocation h_nested) = NotExist \<and>
   fst (readConfig refusing h_nested w_nested) =
     (None, Some (Wrapf ''unable to open ory config file location: %s'' (OSError ''not a directory''))) \<and>
   \<not> errors_Is (Wrapf ''unable to open ory config file location: %s'' (OSError ''not a directory'') :: json error)
        ErrNoConfig"
  by (simp add: readConfig_def os_Open_def emit_def refusing_def h_nested_def w_nested_def)

text \<open>
  C10. \<open>WriteConfig\<close> sets the version of the context it is given to \<open>v0alpha0\<close>
  before it encodes it, whatever version the caller supplied and whether or not the write
  succeeds; the document it leaves in the file is the encoding of that context, and
  sign-out stores the zero context with the version set.
\<close>

theorem WriteConfig_sets_version:
  "(WriteConfig env h c w = ((err, c'), w') \<longrightarrow>
      c' = c\<lparr>Version := version\<rparr> \<and> Version c' = version \<and>
      (err = None \<longrightarrow> fs w' (configLocation h) = Content (json_Marshal env c')) \<and>
      (\<forall>b. fs w' (configLocation h) = Content b \<longrightarrow>
           b = json_Marshal env c' \<or> fs w (configLocation h) = Content b)) \<and>
   (SignOut env h w = (None, w'') \<longrightarrow>
      fs w'' (configLocation h) = Content (json_Marshal env (new_AuthContext\<lparr>Version := version\<rparr>)))"
proof (intro conjI impI)
  assume a: "WriteConfig env h c w = ((err, c'), w')"
  from WriteConfig_any(1)[OF a] show c': "c' = c\<lparr>Version := version\<rparr>" .
  then show "Version c' = version" by simp
  show "\<forall>b. fs w' (configLocation h) = Content b \<longrightarrow>
           b = json_Marshal env c' \<or> fs w (configLocation h) = Content b"
    using WriteConfig_any(2)[OF a] c' by auto
  assume "err = None"
  with a WriteConfig_ok(2)[of env h c w c' w'] c'
  show "fs w' (configLocation h) = Content (json_Marshal env c')" by simp
next
  assume "SignOut env h w = (None, w'')"
  then obtain c' where "WriteConfig env h new_AuthContext w = ((None, c'), w'')"
    by (auto simp: SignOut_def split: prod.splits)
  from WriteConfig_ok(2)[OF this]
  show "fs w'' (configLocation h) = Content (json_Marshal env (new_AuthContext\<lparr>Version := version\<rparr>))"
    by simp
qed

theorem WriteConfig_sets_version_witness:
  "Version (snd (fst (WriteConfig (scripted s1) h0 ctx1 w0))) = ''v0alpha0'' \<and>
   fs (snd (WriteConfig (scripted s1) h0 ctx1 w0)) (configLocation h0) =
     Content (demo_Marshal (ctx1\<lparr>Version := ''v0alpha0''\<rparr>)) \<and>
   member (demo_Marshal (ctx1\<lparr>Version := ''v0alpha0''\<rparr>)) ''version'' = Some (JString ''v0alpha0'') \<and>
   fs (snd (SignOut (scripted s1) h0 w0)) (configLocation h0) =
     Content (demo_Marshal (new_AuthContext\<lparr>Version := ''v0alpha0''\<rparr>))"
proof -
  obtain c' w' where run: "WriteConfig (scripted s1) h0 ctx1 w0 = ((None, c'), w')"
    by (simp add: WriteConfig_result scripted_sel)
  obtain w'' where out: "SignOut (scripted s1) h0 w0 = (None, w'')"
    by (simp add: SignOut_def WriteConfig_result scripted_sel)
  from WriteConfig_sets_version[where env = "scripted s1" and h = h0 and c = ctx1 and w = w0
         and err = None and c' = c' and w' = w' and w'' = w''] run out
  show ?thesis
    by (simp add: scripted_sel version_def demo_Marshal_def)
qed



lemma signin_cases [consumes 1, case_names InitError LoopFailure NilToken Success ContextError StepUp ExchangeError]:
  fixes env :: "'b env"
  assumes run: "signin env tok w = Some y"
    and InitError: "\<And>tok w err w1.
      InitializeSelfServiceLoginFlowWithoutBrowser env
        (if length tok > 0 then Some tok else None)
        (if length tok > 0 then Some ''aal2'' else None) w = (Inl err, w1) \<Longrightarrow>
      P tok w (Inl (Error err), w1)"
    and LoopFailure: "\<And>tok w flow w1 f w2.
      InitializeSelfServiceLoginFlowWithoutBrowser env
        (if length tok > 0 then Some tok else None)
        (if length tok > 0 then Some ''aal2'' else None) w = (Inr flow, w1) \<Longrightarrow>
      retryLogin env tok flow False w1 = Some (Inl f, w2) \<Longrightarrow>
      P tok w (Inl f, w2)"
    and NilToken: "\<And>tok w flow w1 login w2.
      InitializeSelfServiceLoginFlowWithoutBrowser env
        (if length tok > 0 then Some tok else None)
        (if length tok > 0 then Some ''aal2'' else None) w = (Inr flow, w1) \<Longrightarrow>
      retryLogin env tok flow False w1 = Some (Inr login, w2) \<Longrightarrow>
      SessionToken_ptr login = None \<Longrightarrow>
      P tok w (Inl (Panic ''nil pointer dereference''), w2)"
    and Success: "\<And>tok w flow w1 login w2 t sess w3 c.
      InitializeSelfServiceLoginFlowWithoutBrowser env
        (if length tok > 0 then Some tok else None)
        (if length tok > 0 then Some ''aal2'' else None) w = (Inr flow, w1) \<Longrightarrow>
      retryLogin env tok flow False w1 = Some (Inr login, w2) \<Longrightarrow>
      SessionToken_ptr login = Some t \<Longrightarrow>
      ToSession_call env (Coalesce [t, tok]) w2 = (Inr sess, w3) \<Longrightarrow>
      sessionToContext env sess (Coalesce [t, tok]) = Inr c \<Longrightarrow>
      P tok w (Inr (Some c), w3)"
    and ContextError: "\<And>tok w flow w1 login w2 t sess w3 err.
      InitializeSelfServiceLoginFlowWithoutBrowser env
        (if length tok > 0 then Some tok else None)
        (if length tok > 0 then Some ''aal2'' else None) w = (Inr flow, w1) \<Longrightarrow>
      retryLogin env tok flow False w1 = Some (Inr login, w2) \<Longrightarrow>
      SessionToken_ptr login = Some t \<Longrightarrow>
      ToSession_call env (Coalesce [t, tok]) w2 = (Inr sess, w3) \<Longrightarrow>
      sessionToContext env sess (Coalesce [t, tok]) = Inl err \<Longrightarrow>
      P tok w (Inl (Error err), w3)"
    and StepUp: "\<And>tok w flow w1 login w2 t err w3 y.
      InitializeSelfServiceLoginFlowWithoutBrowser env
        (if length tok > 0 then Some tok else None)
        (if length tok > 0 then Some ''aal2'' else None) w = (Inr flow, w1) \<Longrightarrow>
      retryLogin env tok flow False w1 = Some (Inr login, w2) \<Longrightarrow>
      SessionToken_ptr login = Some t \<Longrightarrow>
      ToSession_call env (Coalesce [t, tok]) w2 = (Inl err, w3) \<Longrightarrow>
      aal2_required env err \<Longrightarrow>
      P (Coalesce [t, tok]) w3 y \<Longrightarrow>
      P tok w y"
    and ExchangeError: "\<And>tok w flow w1 login w2 t err w3.
      InitializeSelfServiceLoginFlowWithoutBrowser env
        (if length tok > 0 then Some tok else None)
        (if length tok > 0 then Some ''aal2'' else None) w = (Inr flow, w1) \<Longrightarrow>
      retryLogin env tok flow False w1 = Some (Inr login, w2) \<Longrightarrow>
      SessionToken_ptr login = Some t \<Longrightarrow>
      ToSession_call env (Coalesce [t, tok]) w2 = (Inl err, w3) \<Longrightarrow>
      \<not> aal2_required env err \<Longrightarrow>
      P tok w (Inl (Error err), w3)"
  shows "P tok w y"
proof -
  have "env' = env \<longrightarrow> P tok w y"
    if "signin env' tok w = Some y" for env'
  proof (rule signin.raw_induct[where P = "\<lambda>env' tok w y. env' = env \<longrightarrow> P tok w y", OF _ that],
         goal_cases)
    case (1 f env' tok w y)
    show ?case
    proof (intro impI)
      assume e: "env' = env"
      note body = "1"(2)[unfolded e]
      note IH = "1"(1)[rule_format]
      obtain r w1 where init: "InitializeSelfServiceLoginFlowWithoutBrowser env
        (if length tok > 0 then Some tok else None)
        (if length tok > 0 then Some ''aal2'' else None) w = (r, w1)"
        by (cases "InitializeSelfServiceLoginFlowWithoutBrowser env
        (if length tok > 0 then Some tok else None)
        (if length tok > 0 then Some ''aal2'' else None) w")
      show "P tok w y"
      proof (cases r)
        case (Inl err)
        with body init InitError[OF init[unfolded Inl]] show ?thesis by simp
      next
        case (Inr flow)
        note init' = init[unfolded Inr]
        from body init' obtain z where loop: "retryLogin env tok flow False w1 = Some z"
          by (cases "retryLogin env tok flow False w1") simp_all
        obtain a w2 where z: "z = (a, w2)" by (cases z)
        note loop' = loop[unfolded z]
        show ?thesis
        proof (cases a)
          case (Inl fl)
          with body init' loop' LoopFailure[OF init' loop'[unfolded Inl]] show ?thesis by simp
        next
          case (Inr login)
          note loop'' = loop'[unfolded Inr]
          show ?thesis
          proof (cases "SessionToken_ptr login")
            case None
            with body init' loop'' NilToken[OF init' loop'' None] show ?thesis by simp
          next
            case (Some t)
            obtain x w3 where ex: "ToSession_call env (Coalesce [t, tok]) w2 = (x, w3)"
              by (cases "ToSession_call env (Coalesce [t, tok]) w2")
            show ?thesis
            proof (cases x)
              case (Inr sess)
              note ex' = ex[unfolded Inr]
              show ?thesis
              proof (cases "sessionToContext env sess (Coalesce [t, tok])")
                case (Inl err)
                with body init' loop'' Some ex' ContextError[OF init' loop'' Some ex' Inl]
                show ?thesis by (simp add: Let_def)
              next
                case (Inr c)
                with body init' loop'' Some ex' Success[OF init' loop'' Some ex' Inr]
                show ?thesis by (simp add: Let_def)
              qed
            next
              case (Inl err)
              note ex' = ex[unfolded Inl]
              show ?thesis
              proof (cases "aal2_required env err")
                case False
                with body init' loop'' Some ex' ExchangeError[OF init' loop'' Some ex' False]
                show ?thesis by (simp add: Let_def)
              next
                case True
                with body init' loop'' Some ex' have "f env (Coalesce [t, tok]) w3 = Some y"
                  by (simp add: Let_def)
                from IH[OF this] have "P (Coalesce [t, tok]) w3 y" by simp
                from StepUp[OF init' loop'' Some ex' True this] show ?thesis .
              qed
            qed
          qed
        qed
      qed
    qed
  qed
  from this[OF run] show ?thesis by simp
qed

subsection \<open>The shape of a run\<close>


lemma retry_notice_effect:
  "trace (retry_notice msg isRetry w) = trace w @ (if isRetry then [Printed msg []] else [])"
  "fs (retry_notice msg isRetry w) = fs w"
  by (simp_all add: retry_notice_def Fprintf_def emit_def)

lemma renderForm_effect:
  assumes "renderForm env ui method form w = (r, w')"
  shows "trace w' = trace w @ [Rendered ui method form (answer_renderForm env (trace w) ui method form)]"
    and "fs w' = fs w"
    and "r = Inr form' \<Longrightarrow> fst form' = fst form"
  using assms by (auto simp: renderForm_def Let_def emit_def split: sum.splits)

lemma SubmitLogin_effect:
  assumes "SubmitSelfServiceLoginFlow env tok f b w = (a, w')"
  shows "trace w' = trace w @ [SubmittedLogin tok f b a]" and "fs w' = fs w"
    and "a = answer_SubmitLogin env (trace w) tok f b"
  using assms by (auto simp: SubmitSelfServiceLoginFlow_def Let_def emit_def)


lemma submitted_flows_append [simp]:
  "submitted_flows (xs @ ys) = submitted_flows xs @ submitted_flows ys"
  by (induction xs rule: submitted_flows.induct) simp_all

lemma replacement_flows_append [simp]:
  "replacement_flows (xs @ ys) = replacement_flows xs @ replacement_flows ys"
  by (induction xs rule: replacement_flows.induct) (simp_all split: option.splits)

lemma rendered_uis_append [simp]:
  "rendered_uis (xs @ ys) = rendered_uis xs @ rendered_uis ys"
  by (induction xs rule: rendered_uis.induct) simp_all

lemma rendered_methods_append [simp]:
  "rendered_methods (xs @ ys) = rendered_methods xs @ rendered_methods ys"
  by (induction xs rule: rendered_methods.induct) simp_all


lemma scan_nodes_eq:
  "scan_nodes nodes (a, b) = (a \<or> has_group ''totp'' nodes, b \<or> has_group ''lookup_secret'' nodes)"
  by (induction nodes arbitrary: a b) (auto simp: has_group_def)

lemma negotiate_eq:
  "negotiate tok nodes =
     (if tok = [] then Inr (''password'', (LoginWithPasswordMethodBody, []))
      else if has_group ''totp'' nodes then Inr (''totp'', (LoginWithTotpMethodBody, []))
      else if has_group ''lookup_secret'' nodes
        then Inr (''lookup_secret'', (LoginWithPasswordMethodBody, []))
      else Inl unsupported_second_factor)"
  by (simp add: negotiate_def scan_nodes_eq unsupported_second_factor_def Let_def)

lemma negotiate_form:
  assumes "negotiate tok nodes = Inr (method, form)"
  shows "form = (LoginWithPasswordMethodBody, []) \<or> form = (LoginWithTotpMethodBody, [])"
  using assms by (auto simp: negotiate_eq split: if_splits)

lemma rendered_form_has_body:
  assumes "negotiate tok nodes = Inr (method, form0)"
    and "renderForm env ui method form0 w = (Inr form, w2)"
  shows "form_to_body form \<noteq> None"
proof -
  from renderForm_effect(3)[OF assms(2) refl] have "fst form = fst form0" .
  with negotiate_form[OF assms(1)] show ?thesis by (cases form) auto
qed

lemma retryLogin_run:
  assumes "retryLogin env tok flow isRetry w = Some (res, w')"
  shows "\<exists>evs. trace w' = trace w @ evs \<and> fs w' = fs w \<and> list_all loop_event evs \<and>
           res \<noteq> Inl (Panic ''unexpected type'') \<and>
           (\<forall>s. res = Inr s \<longrightarrow>
              submitted_flows evs = map flow_Id (flow # replacement_flows evs) \<and>
              rendered_uis evs = map Ui (flow # replacement_flows evs)) \<and>
           (\<forall>t f b err. SubmittedLogin t f b (Inl err) \<in> set evs \<longrightarrow>
              login_replacement err = None \<longrightarrow> res = Inl (Error (WithStack err)))"
proof -
  define P where "P = (\<lambda>flow (isRetry :: bool) (w :: 'a world) (y :: ('a failure + Successful) \<times> 'a world).
     \<exists>evs. trace (snd y) = trace w @ evs \<and> fs (snd y) = fs w \<and> list_all loop_event evs \<and>
           fst y \<noteq> Inl (Panic ''unexpected type'') \<and>
           (\<forall>s. fst y = Inr s \<longrightarrow>
              submitted_flows evs = map flow_Id (flow # replacement_flows evs) \<and>
              rendered_uis evs = map Ui (flow # replacement_flows evs)) \<and>
           (\<forall>t f b err. SubmittedLogin t f b (Inl err) \<in> set evs \<longrightarrow>
              login_replacement err = None \<longrightarrow> fst y = Inl (Error (WithStack err))))"
  from assms have "P flow isRetry w (res, w')"
  proof (cases rule: retryLogin_cases[where P = P])
    case (NoMethod flow isRetry w err)
    show ?case by (auto simp: P_def retry_notice_effect)
  next
    case (RenderError flow isRetry w meth form0 err w2)
    from renderForm_effect(1,2)[OF RenderError(2)] show ?case
      by (auto simp: P_def retry_notice_effect)
  next
    case (UnexpectedType flow isRetry w meth form0 form w2)
    from rendered_form_has_body[OF UnexpectedType(1,2)] UnexpectedType(3) show ?case by simp
  next
    case (Success flow isRetry w meth form0 form w2 body login w3)
    from renderForm_effect(1,2)[OF Success(2)] SubmitLogin_effect(1,2)[OF Success(4)]
    show ?case
      by (auto simp: P_def retry_notice_effect)
  next
    case (Retry flow isRetry w meth form0 form w2 body err w3 m y)
    from Retry(6) obtain evs where evs: "trace (snd y) = trace w3 @ evs" "fs (snd y) = fs w3"
       "list_all loop_event evs" "fst y \<noteq> Inl (Panic ''unexpected type'')"
       "\<forall>s. fst y = Inr s \<longrightarrow>
              submitted_flows evs = map flow_Id (m # replacement_flows evs) \<and>
              rendered_uis evs = map Ui (m # replacement_flows evs)"
       "\<forall>t f b err. SubmittedLogin t f b (Inl err) \<in> set evs \<longrightarrow>
              login_replacement err = None \<longrightarrow> fst y = Inl (Error (WithStack err))"
      unfolding P_def by blast
    let ?pre = "(if isRetry then [Printed login_notice []] else []) @
       [Rendered (Ui flow) meth form0
          (answer_renderForm env (trace (retry_notice login_notice isRetry w)) (Ui flow) meth form0),
        SubmittedLogin tok (flow_Id flow) body (Inl err)]"
    from renderForm_effect(1,2)[OF Retry(2)] SubmitLogin_effect(1,2)[OF Retry(4)]
    have tr: "trace w3 = trace w @ ?pre" and f: "fs w3 = fs w"
      by (simp_all add: retry_notice_effect)
    show ?case unfolding P_def
    proof (intro exI[of _ "?pre @ evs"] conjI)
      show "trace (snd y) = trace w @ ?pre @ evs" using evs(1) tr by simp
      show "fs (snd y) = fs w" using evs(2) f by simp
      show "list_all loop_event (?pre @ evs)" using evs(3) by simp
      show "fst y \<noteq> Inl (Panic ''unexpected type'')" by (rule evs(4))
      show "\<forall>s. fst y = Inr s \<longrightarrow>
          submitted_flows (?pre @ evs) = map flow_Id (flow # replacement_flows (?pre @ evs)) \<and>
          rendered_uis (?pre @ evs) = map Ui (flow # replacement_flows (?pre @ evs))"
        using evs(5) Retry(5) by simp
      show "\<forall>t f b err. SubmittedLogin t f b (Inl err) \<in> set (?pre @ evs) \<longrightarrow>
          login_replacement err = None \<longrightarrow> fst y = Inl (Error (WithStack err))"
        using evs(6) Retry(5) by auto
    qed
  next
    case (Fatal flow isRetry w meth form0 form w2 body err w3)
    from renderForm_effect(1,2)[OF Fatal(2)] SubmitLogin_effect(1,2)[OF Fatal(4)] Fatal(5)
    show ?case
      by (auto simp: P_def retry_notice_effect)
  qed
  then show ?thesis by (simp add: P_def)
qed



lemma retryLogin_first_render:
  fixes env :: "'b env"
  assumes "retryLogin env tok flow isRetry w = Some (res, w')"
    and "negotiate tok (Nodes (Ui flow)) = (Inr (method, form0) :: 'b error + (string \<times> form))"
  shows "\<exists>rest. rendered_methods (since w w') = method # rest"
proof -
  have eq: "retryLogin env tok flow isRetry w =
    (case renderForm env (Ui flow) method form0 (retry_notice login_notice isRetry w) of
             (Inl err, w2) \<Rightarrow> Some (Inl (Error err), w2)
           | (Inr form, w2) \<Rightarrow>
               (case form_to_body form of
                  None \<Rightarrow> Some (Inl (Panic ''unexpected type''), w2)
                | Some body \<Rightarrow>
                    (case SubmitSelfServiceLoginFlow env tok (flow_Id flow) body w2 of
                       (Inr login, w3) \<Rightarrow> Some (Inr login, w3)
                     | (Inl err, w3) \<Rightarrow>
                         (case login_replacement err of
                            Some m \<Rightarrow> retryLogin env tok m True w3
                          | None \<Rightarrow> Some (Inl (Error (WithStack err)), w3)))))"
    by (subst retryLogin.simps)
       (auto simp: Let_def login_notice_fold assms(2) split: prod.splits sum.splits option.splits
             error.splits model.splits)
  obtain r w2 where rf: "renderForm env (Ui flow) method form0 (retry_notice login_notice isRetry w) = (r, w2)"
    by (cases "renderForm env (Ui flow) method form0 (retry_notice login_notice isRetry w)")
  from renderForm_effect(1)[OF rf]
  have t2: "trace w2 = trace w @ (if isRetry then [Printed login_notice []] else []) @
      [Rendered (Ui flow) method form0
         (answer_renderForm env (trace (retry_notice login_notice isRetry w)) (Ui flow) method form0)]"
    by (simp add: retry_notice_effect)
  have ext: "\<exists>evs. trace w' = trace w2 @ evs"
  proof (cases r)
    case (Inl err)
    with assms(1) rf show ?thesis by (simp add: eq)
  next
    case (Inr form)
    show ?thesis
    proof (cases "form_to_body form")
      case None
      with assms(1) rf Inr show ?thesis by (simp add: eq)
    next
      case (Some body)
      obtain a w3 where sb: "SubmitSelfServiceLoginFlow env tok (flow_Id flow) body w2 = (a, w3)"
        by (cases "SubmitSelfServiceLoginFlow env tok (flow_Id flow) body w2")
      note t3 = SubmitLogin_effect(1)[OF sb]
      show ?thesis
      proof (cases a)
        case (Inr login)
        with assms(1) rf \<open>r = Inr form\<close> Some sb t3 show ?thesis by (simp add: eq)
      next
        case (Inl err)
        show ?thesis
        proof (cases "login_replacement err")
          case None
          with assms(1) rf \<open>r = Inr form\<close> Some sb t3 Inl show ?thesis by (simp add: eq)
        next
          case (Some m)
          with assms(1) rf \<open>r = Inr form\<close> \<open>form_to_body form = Some body\<close> sb Inl
          have "retryLogin env tok m True w3 = Some (res, w')" by (simp add: eq)
          from retryLogin_run[OF this] obtain evs where "trace w' = trace w3 @ evs" by blast
          with t3 show ?thesis by simp
        qed
      qed
    qed
  qed
  then obtain evs where "trace w' = trace w2 @ evs" ..
  with t2 have "since w w' = (if isRetry then [Printed login_notice []] else []) @
      [Rendered (Ui flow) method form0
         (answer_renderForm env (trace (retry_notice login_notice isRetry w)) (Ui flow) method form0)] @ evs"
    by (simp add: since_def)
  then show ?thesis by simp
qed

lemma retryLogin_no_method:
  fixes env :: "'b env"
  assumes "negotiate tok (Nodes (Ui flow)) = (Inl err :: 'b error + (string \<times> form))"
  shows "retryLogin env tok flow isRetry w = Some (Inl (Error err), retry_notice login_notice isRetry w)"
  by (subst retryLogin.simps) (simp add: Let_def login_notice_fold assms)

lemma InitLogin_effect:
  assumes "InitializeSelfServiceLoginFlowWithoutBrowser env a b w = (r, w')"
  shows "trace w' = trace w @ [InitLogin a b r]" and "fs w' = fs w"
  using assms by (auto simp: InitializeSelfServiceLoginFlowWithoutBrowser_def Let_def emit_def)

lemma signin_unfold:
  "signin env tok w =
     (case InitializeSelfServiceLoginFlowWithoutBrowser env
             (if length tok > 0 then Some tok else None)
             (if length tok > 0 then Some ''aal2'' else None) w of
        (Inl err, w1) \<Rightarrow> Some (Inl (Error err), w1)
      | (Inr flow, w1) \<Rightarrow>
          (case retryLogin env tok flow False w1 of
             None \<Rightarrow> None
           | Some (Inl f, w2) \<Rightarrow> Some (Inl f, w2)
           | Some (Inr login, w2) \<Rightarrow>
               (case SessionToken_ptr login of
                  None \<Rightarrow> Some (Inl (Panic ''nil pointer dereference''), w2)
                | Some t \<Rightarrow>
                    (case ToSession_call env (Coalesce [t, tok]) w2 of
                       (Inr sess, w3) \<Rightarrow>
                         (case sessionToContext env sess (Coalesce [t, tok]) of
                            Inl err \<Rightarrow> Some (Inl (Error err), w3)
                          | Inr c \<Rightarrow> Some (Inr (Some c), w3))
                     | (Inl err, w3) \<Rightarrow>
                         if aal2_required env err then signin env (Coalesce [t, tok]) w3
                         else Some (Inl (Error err), w3)))))"
  by (subst signin.simps) (simp only: Let_def)

lemma has_group_map: "has_group g nodes = (g \<in> set (map Group nodes))"
  by (auto simp: has_group_def)

text \<open>
  C1. With a prior session token, the method of the login path depends on the groups of
  the flow's UI nodes only: \<open>totp\<close> when a node has group \<open>totp\<close> (also beside
  \<open>lookup_secret\<close>), else \<open>lookup_secret\<close> when a node has that group; with neither,
  the login path returns the error of the unsupported second factor and submits nothing.
  The negotiated method is the one the form is rendered with.
\<close>

theorem step_up_method_negotiation:
  fixes env :: "'b env"
  assumes "length tok > 0" and "Nodes (Ui flow) = nodes"
  shows
    "(has_group ''totp'' nodes \<longrightarrow>
        negotiate tok nodes = (Inr (''totp'', (LoginWithTotpMethodBody, [])) :: 'b error + (string \<times> form))) \<and>
     (\<not> has_group ''totp'' nodes \<and> has_group ''lookup_secret'' nodes \<longrightarrow>
        negotiate tok nodes =
          (Inr (''lookup_secret'', (LoginWithPasswordMethodBody, [])) :: 'b error + (string \<times> form))) \<and>
     (\<not> has_group ''totp'' nodes \<and> \<not> has_group ''lookup_secret'' nodes \<longrightarrow>
        negotiate tok nodes = (Inl unsupported_second_factor :: 'b error + (string \<times> form)) \<and>
        retryLogin env tok flow isRetry w =
          Some (Inl (Error unsupported_second_factor), retry_notice login_notice isRetry w) \<and>
        submitted_flows (since w (retry_notice login_notice isRetry w)) = [] \<and>
        (\<forall>v va. InitializeSelfServiceLoginFlowWithoutBrowser env (Some tok) (Some ''aal2'') v = (Inr flow, va) \<longrightarrow>
           signin env tok v = Some (Inl (Error unsupported_second_factor), va) \<and>
           submitted_flows (since v va) = [])) \<and>
     (\<forall>nodes'. map Group nodes' = map Group nodes \<longrightarrow>
        (negotiate tok nodes' :: 'b error + (string \<times> form)) = negotiate tok nodes) \<and>
     (\<forall>method form0 res w'.
        negotiate tok nodes = (Inr (method, form0) :: 'b error + (string \<times> form)) \<longrightarrow>
        retryLogin env tok flow isRetry w = Some (res, w') \<longrightarrow>
        (\<exists>rest. rendered_methods (since w w') = method # rest))"
proof (intro conjI impI allI)
  from assms(1) have tok: "tok \<noteq> []" by auto
  show "negotiate tok nodes = (Inr (''totp'', (LoginWithTotpMethodBody, [])) :: 'b error + (string \<times> form))"
    if "has_group ''totp'' nodes"
    using that tok by (simp add: negotiate_eq)
  show "negotiate tok nodes =
          (Inr (''lookup_secret'', (LoginWithPasswordMethodBody, [])) :: 'b error + (string \<times> form))"
    if "\<not> has_group ''totp'' nodes \<and> has_group ''lookup_secret'' nodes"
    using that tok by (simp add: negotiate_eq)
  show neither: "negotiate tok nodes = (Inl unsupported_second_factor :: 'b error + (string \<times> form))"
    if "\<not> has_group ''totp'' nodes \<and> \<not> has_group ''lookup_secret'' nodes"
    using that tok by (simp add: negotiate_eq)
  show "retryLogin env tok flow isRetry w =
          Some (Inl (Error unsupported_second_factor), retry_notice login_notice isRetry w)"
    if "\<not> has_group ''totp'' nodes \<and> \<not> has_group ''lookup_secret'' nodes"
    using retryLogin_no_method[of tok flow unsupported_second_factor env isRetry w] neither[OF that] assms(2)
    by simp
  show "submitted_flows (since w (retry_notice login_notice isRetry w)) = []"
    by (simp add: since_def retry_notice_effect)
  show "signin env tok v = Some (Inl (Error unsupported_second_factor), va)"
    if "\<not> has_group ''totp'' nodes \<and> \<not> has_group ''lookup_secret'' nodes"
      and "InitializeSelfServiceLoginFlowWithoutBrowser env (Some tok) (Some ''aal2'') v = (Inr flow, va)"
    for v va
    using retryLogin_no_method[of tok flow unsupported_second_factor env False va]
      neither[OF that(1)] assms that(2)
    by (subst signin_unfold) (simp add: retry_notice_def)
  show "submitted_flows (since v va) = []"
    if "InitializeSelfServiceLoginFlowWithoutBrowser env (Some tok) (Some ''aal2'') v = (Inr flow, va)"
    for v va
    using InitLogin_effect(1)[OF that] by (simp add: since_def)
  show "(negotiate tok nodes' :: 'b error + (string \<times> form)) = negotiate tok nodes"
    if "map Group nodes' = map Group nodes" for nodes'
    using that by (simp add: negotiate_eq has_group_map)
  show "\<exists>rest. rendered_methods (since w w') = meth # rest"
    if "negotiate tok nodes = (Inr (meth, form0) :: 'b error + (string \<times> form))"
      and "retryLogin env tok flow isRetry w = Some (res, w')" for meth form0 res w'
    using retryLogin_first_render[OF that(2)] that(1) assms(2) by simp
qed

theorem step_up_method_negotiation_witness:
  "negotiate ''tok1'' [lookup_node, totp_node] =
     (Inr (''totp'', (LoginWithTotpMethodBody, [])) :: json error + (string \<times> form)) \<and>
   negotiate ''tok1'' [pw_node, lookup_node] =
     (Inr (''lookup_secret'', (LoginWithPasswordMethodBody, [])) :: json error + (string \<times> form)) \<and>
   retryLogin (scripted s1) ''tok1'' flowA False w0 = Some (Inl (Error unsupported_second_factor), w0) \<and>
   signin (scripted s1) ''tok1'' w0 =
     Some (Inl (Error unsupported_second_factor),
           emit (InitLogin (Some ''tok1'') (Some ''aal2'') (Inr flowA)) w0)"
proof -
  have a: "has_group ''totp'' [lookup_node, totp_node]"
    and b: "\<not> has_group ''totp'' [pw_node, lookup_node] \<and> has_group ''lookup_secret'' [pw_node, lookup_node]"
    and c: "\<not> has_group ''totp'' [pw_node] \<and> \<not> has_group ''lookup_secret'' [pw_node]"
    by (simp_all add: has_group_def lookup_node_def totp_node_def pw_node_def)
  have t: "length ''tok1'' > 0" by simp
  have nT: "Nodes (Ui flowT) = [lookup_node, totp_node]"
    and nL: "Nodes (Ui flowL) = [pw_node, lookup_node]"
    and nA: "Nodes (Ui flowA) = [pw_node]"
    by (simp_all add: flowT_def flowL_def flowA_def)
  note T = step_up_method_negotiation[OF t nT, where env = "scripted s1" and isRetry = False and w = w0]
  note L = step_up_method_negotiation[OF t nL, where env = "scripted s1" and isRetry = False and w = w0]
  note A = step_up_method_negotiation[OF t nA, where env = "scripted s1" and isRetry = False and w = w0]
  have init: "InitializeSelfServiceLoginFlowWithoutBrowser (scripted s1) (Some ''tok1'') (Some ''aal2'') w0 =
      (Inr flowA, emit (InitLogin (Some ''tok1'') (Some ''aal2'') (Inr flowA)) w0)"
    by (simp add: InitializeSelfServiceLoginFlowWithoutBrowser_def scripted_sel s1_sel nth_answer_def
          calls_def w0_def Let_def)
  note N = A[THEN conjunct2, THEN conjunct2, THEN conjunct1, rule_format, OF c]
  from T[THEN conjunct1, rule_format, OF a]
       L[THEN conjunct2, THEN conjunct1, rule_format, OF b]
       N[THEN conjunct2, THEN conjunct1]
       N[THEN conjunct2, THEN conjunct2, THEN conjunct2, rule_format, OF init, THEN conjunct1]
  show ?thesis
    by (simp add: retry_notice_def)
qed









lemmas run_simps = retryLogin.simps retryRegistration.simps signin.simps signup_def negotiate_def
  sessionToContext_def getField_def uuid_FromStringOrNil_def call_defs demo_defs since_def


lemma signin_never_unexpected_type:
  assumes "signin env tok w = Some (res, w')"
  shows "res \<noteq> Inl (Panic ''unexpected type'')"
proof -
  from assms have "fst (res, w') \<noteq> Inl (Panic ''unexpected type'')"
  proof (cases rule: signin_cases[where P = "\<lambda>tok w y. fst y \<noteq> Inl (Panic ''unexpected type'')"])
    case (LoopFailure tok w flow w1 f w2)
    from retryLogin_run[OF LoopFailure(2)] show ?case by auto
  qed simp_all
  then show ?thesis by simp
qed

text \<open>
  C9. In the login path the type switch on the rendered form never takes its default
  branch: the form that reaches it points to the password body or to the TOTP body, so
  neither the login loop nor \<open>signin\<close> ends with the panic of that branch.
\<close>

theorem type_switch_default_unreachable:
  fixes env :: "'b env"
  shows
  "(negotiate tok (Nodes (Ui flow)) = (Inr (meth, iform) :: 'b error + (string \<times> form)) \<longrightarrow>
    renderForm env (Ui flow) meth iform wa = (Inr form, wb) \<longrightarrow>
      (fst form = LoginWithPasswordMethodBody \<or> fst form = LoginWithTotpMethodBody) \<and>
      form_to_body form \<noteq> None) \<and>
   (retryLogin env tok flow isRetry w = Some (res, w') \<longrightarrow> res \<noteq> Inl (Panic ''unexpected type'')) \<and>
   (signin env tok w = Some (res', w'') \<longrightarrow> res' \<noteq> Inl (Panic ''unexpected type''))"
proof (intro conjI impI)
  assume n: "negotiate tok (Nodes (Ui flow)) = (Inr (meth, iform) :: 'b error + (string \<times> form))"
    and r: "renderForm env (Ui flow) meth iform wa = (Inr form, wb)"
  from renderForm_effect(3)[OF r refl] negotiate_form[OF n]
  show "fst form = LoginWithPasswordMethodBody \<or> fst form = LoginWithTotpMethodBody" by auto
  from rendered_form_has_body[OF n r] show "form_to_body form \<noteq> None" .
next
  assume "retryLogin env tok flow isRetry w = Some (res, w')"
  from retryLogin_run[OF this] show "res \<noteq> Inl (Panic ''unexpected type'')" by blast
next
  assume "signin env tok w = Some (res', w'')"
  then show "res' \<noteq> Inl (Panic ''unexpected type'')" by (rule signin_never_unexpected_type)
qed

theorem type_switch_default_unreachable_witness:
  "(\<exists>form wb. renderForm (scripted s1) (Ui flowT) ''totp'' (LoginWithTotpMethodBody, []) w0 = (Inr form, wb) \<and>
      fst form = LoginWithTotpMethodBody \<and> form_to_body form \<noteq> None) \<and>
   (\<exists>c W. signin (scripted s1) [] w0 = Some (Inr (Some c), W) \<and>
      (Inr (Some c) :: json failure + AuthContext option) \<noteq> Inl (Panic ''unexpected type''))"
proof -
  have n: "negotiate ''tok1'' (Nodes (Ui flowT)) =
      (Inr (''totp'', (LoginWithTotpMethodBody, [])) :: json error + (string \<times> form))"
    by (simp add: negotiate_def flowT_def lookup_node_def totp_node_def)
  have "\<exists>form wb. renderForm (scripted s1) (Ui flowT) ''totp'' (LoginWithTotpMethodBody, []) w0 = (Inr form, wb)"
    by (simp add: run_simps s1_sel)
  then obtain form wb where
    r: "renderForm (scripted s1) (Ui flowT) ''totp'' (LoginWithTotpMethodBody, []) w0 = (Inr form, wb)"
    by blast
  have "\<exists>c W. signin (scripted s1) [] w0 = Some (Inr (Some c), W)"
    by (simp add: run_simps s1_sel flowA_def flowB_def)
  then obtain c W where s: "signin (scripted s1) [] w0 = Some (Inr (Some c), W)" by blast
  note inst = type_switch_default_unreachable[where env = "scripted s1" and tok = "''tok1''"
      and flow = flowT and meth = "''totp''" and iform = "(LoginWithTotpMethodBody, [])" and wa = w0
      and form = form and wb = wb]
  note inst2 = type_switch_default_unreachable[where env = "scripted s1" and tok = "[]"
      and w = w0 and res' = "Inr (Some c)" and w'' = W]
  from inst[THEN conjunct1, rule_format, OF n r] renderForm_effect(3)[OF r refl]
  have a: "fst form = LoginWithTotpMethodBody \<and> form_to_body form \<noteq> None" by simp
  from inst2[THEN conjunct2, THEN conjunct2, rule_format, OF s]
  have b: "(Inr (Some c) :: json failure + AuthContext option) \<noteq> Inl (Panic ''unexpected type'')" .
  from r a s b show ?thesis by blast
qed

lemma SignOut_eq:
  "SignOut env h w = (fst (fst (WriteConfig env h new_AuthContext w)), snd (WriteConfig env h new_AuthContext w))"
  by (simp add: SignOut_def split: prod.splits)

lemma demo_roundtrip: "demo_Unmarshal (demo_Marshal c) = Inr c"
  by (simp add: demo_Unmarshal_def demo_Marshal_def)

text \<open>
  C4. Sign-out makes no call to the identity API, whatever the state on disk.
  When its write succeeds, the file holds the encoding of the zero context with the
  version set to \<open>v0alpha0\<close> (not the zero value itself, whose version is empty), and a
  load that succeeds in reading and decoding that document returns this context.
\<close>

theorem SignOut_persists_zero_with_version:
  "filter is_network (trace (snd (SignOut env h w))) = filter is_network (trace w) \<and>
   (fst (SignOut env h w) = None \<longrightarrow>
      fs (snd (SignOut env h w)) (configLocation h) =
        Content (json_Marshal env (new_AuthContext\<lparr>Version := version\<rparr>)) \<and>
      (json_Unmarshal env (json_Marshal env (new_AuthContext\<lparr>Version := version\<rparr>)) =
         Inr (new_AuthContext\<lparr>Version := version\<rparr>) \<longrightarrow>
       fault_Open env (trace (snd (SignOut env h w))) (configLocation h) = None \<longrightarrow>
       fault_Read env (trace (snd (SignOut env h w)) @ [OpenedForRead (configLocation h)])
         (configLocation h) = None \<longrightarrow>
       fst (readConfig env h (snd (SignOut env h w))) =
         (Some (new_AuthContext\<lparr>Version := version\<rparr>), None)))"
proof -
  obtain err c' w' where run: "WriteConfig env h new_AuthContext w = ((err, c'), w')"
    by (metis surj_pair)
  have so: "SignOut env h w = (err, w')" by (simp add: SignOut_eq run)
  have net: "filter is_network (trace w') = filter is_network (trace w)"
    by (rule WriteConfig_any(4)[OF run])
  have "fs w' (configLocation h) = Content (json_Marshal env (new_AuthContext\<lparr>Version := version\<rparr>))"
    if "err = None"
    using WriteConfig_ok(2)[of env h new_AuthContext w c' w'] run that by simp
  moreover have "fst (readConfig env h w') = (Some (new_AuthContext\<lparr>Version := version\<rparr>), None)"
    if "err = None"
      and "json_Unmarshal env (json_Marshal env (new_AuthContext\<lparr>Version := version\<rparr>)) =
         Inr (new_AuthContext\<lparr>Version := version\<rparr>)"
      and "fault_Open env (trace w') (configLocation h) = None"
      and "fault_Read env (trace w' @ [OpenedForRead (configLocation h)]) (configLocation h) = None"
    using readConfig_Content[OF calculation[OF that(1)] that(3,4,2)] by simp
  ultimately show ?thesis using net by (simp add: so)
qed

theorem SignOut_persists_zero_with_version_witness:
  "fst (SignOut (scripted s1) h0 w_stored) = None \<and>
   fs (snd (SignOut (scripted s1) h0 w_stored)) (configLocation h0) =
     Content (demo_Marshal (new_AuthContext\<lparr>Version := ''v0alpha0''\<rparr>)) \<and>
   fst (readConfig (scripted s1) h0 (snd (SignOut (scripted s1) h0 w_stored))) =
     (Some (new_AuthContext\<lparr>Version := ''v0alpha0''\<rparr>), None)"
proof -
  have ok: "fst (SignOut (scripted s1) h0 w_stored) = None"
    by (simp add: SignOut_eq WriteConfig_result scripted_sel)
  note inst = SignOut_persists_zero_with_version[where env = "scripted s1" and h = h0 and w = w_stored,
      THEN conjunct2, rule_format, OF ok]
  from inst[THEN conjunct1]
       inst[THEN conjunct2, rule_format, OF _ scripted_sel(8) scripted_sel(9)] ok
  show ?thesis
    by (simp add: scripted_sel(1,2) demo_roundtrip version_def)
qed

theorem SignOut_zero_value_counterexample:
  "fst (SignOut (scripted s1) h0 w_stored) = None \<and>
   fst (readConfig (scripted s1) h0 (snd (SignOut (scripted s1) h0 w_stored))) =
     (Some (new_AuthContext\<lparr>Version := ''v0alpha0''\<rparr>), None) \<and>
   Version (new_AuthContext\<lparr>Version := ''v0alpha0''\<rparr>) \<noteq> [] \<and>
   new_AuthContext\<lparr>Version := ''v0alpha0''\<rparr> \<noteq> new_AuthContext"
  by (simp add: SignOut_eq WriteConfig_result scripted_sel readConfig_def os_Open_def Decode_def
        emit_def demo_roundtrip version_def new_AuthContext_def w_stored_def)

text \<open>
  C5. Saving a context and loading from the same path gives the saved context
  with its version replaced by \<open>v0alpha0\<close>, which is also the value \<open>WriteConfig\<close> leaves
  with its caller, provided the write succeeds, the JSON library decodes that document
  back to the context, and the file opens and reads. The load gives back the value passed
  to the save exactly when the version of that value is \<open>v0alpha0\<close>.
\<close>

theorem save_then_load:
  assumes "WriteConfig env h c w = ((None, c'), w1)"
    and "json_Unmarshal env (json_Marshal env (c\<lparr>Version := version\<rparr>)) = Inr (c\<lparr>Version := version\<rparr>)"
    and "fault_Open env (trace w1) (configLocation h) = None"
    and "fault_Read env (trace w1 @ [OpenedForRead (configLocation h)]) (configLocation h) = None"
  shows "fst (readConfig env h w1) = (Some (c\<lparr>Version := version\<rparr>), None) \<and>
         c' = c\<lparr>Version := version\<rparr> \<and>
         (fst (readConfig env h w1) = (Some c, None)) = (Version c = version)"
proof -
  from WriteConfig_ok(2)[OF assms(1)]
  have "fs w1 (configLocation h) = Content (json_Marshal env (c\<lparr>Version := version\<rparr>))" by simp
  from readConfig_Content[OF this assms(3,4,2)]
  have load: "fst (readConfig env h w1) = (Some (c\<lparr>Version := version\<rparr>), None)" by simp
  have "(c\<lparr>Version := version\<rparr> = c) = (Version c = version)"
    by (cases c) auto
  with load WriteConfig_ok(1)[OF assms(1)] show ?thesis by simp
qed

theorem save_then_load_witness:
  "fst (readConfig (scripted s1) h0 (snd (WriteConfig (scripted s1) h0 (ctx1\<lparr>Version := ''v0alpha0''\<rparr>) w0))) =
     (Some (ctx1\<lparr>Version := ''v0alpha0''\<rparr>), None)"
proof -
  obtain c' w1 where run: "WriteConfig (scripted s1) h0 (ctx1\<lparr>Version := ''v0alpha0''\<rparr>) w0 = ((None, c'), w1)"
    by (simp add: WriteConfig_result scripted_sel)
  have rt: "json_Unmarshal (scripted s1) (json_Marshal (scripted s1) (ctx1\<lparr>Version := ''v0alpha0'', Version := version\<rparr>)) =
      Inr (ctx1\<lparr>Version := ''v0alpha0'', Version := version\<rparr>)"
    by (simp only: scripted_sel demo_roundtrip)
  from save_then_load[OF run rt scripted_sel(8) scripted_sel(9)] run
  show ?thesis by (simp add: version_def)
qed

theorem save_then_load_counterexample:
  "fst (fst (WriteConfig (scripted s1) h0 ctx1 w0)) = None \<and>
   fst (readConfig (scripted s1) h0 (snd (WriteConfig (scripted s1) h0 ctx1 w0))) =
     (Some (ctx1\<lparr>Version := ''v0alpha0''\<rparr>), None) \<and>
   ctx1\<lparr>Version := ''v0alpha0''\<rparr> \<noteq> ctx1"
  by (simp add: WriteConfig_result scripted_sel readConfig_def os_Open_def Decode_def
        emit_def demo_roundtrip version_def ctx1_def w0_def)

lemma EnsureContext_absent:
  assumes "fs w (configLocation h) = NotExist"
    and "fault_Open env (trace w) (configLocation h) = None"
  shows "EnsureContext env h w = Some (Inr None, emit (OpenedForRead (configLocation h)) w)"
  by (simp add: EnsureContext_def readConfig_NotExist[OF assms] emit_def)

lemma Authenticate_absent:
  assumes "fs w (configLocation h) = NotExist"
    and "fault_Open env (trace w) (configLocation h) = None"
    and "\<not> noConfirm h"
  shows "Authenticate env h w = Some (Inr None, emit (OpenedForRead (configLocation h)) w)"
  using assms(3) by (simp add: Authenticate_def readConfig_NotExist[OF assms(1,2)] emit_def)

text \<open>
  C7. With no config file, \<open>EnsureContext\<close> and \<open>Authenticate\<close> return a nil context and
  a nil error right after the failed load: the user is not asked whether an account
  exists and no flow starts. With a file that holds an empty session token, the same
  handler and the same answers ask the question and sign in.
\<close>

theorem absent_config_skips_authentication:
  "EnsureContext (scripted s1) h0 w0 = Some (Inr None, w0\<lparr>trace := [OpenedForRead (configLocation h0)]\<rparr>) \<and>
   Authenticate (scripted s1) h0 w0 = Some (Inr None, w0\<lparr>trace := [OpenedForRead (configLocation h0)]\<rparr>) \<and>
   (\<exists>c W. EnsureContext (scripted s1) h0 w_signed_out = Some (Inr (Some c), W) \<and>
      SessionToken c = ''tok'' \<and>
      filter is_Asked (trace W) =
        [Asked ''Do you already have an Ory Console account you wish to use?'' True] \<and>
      fs W (configLocation h0) = Content (demo_Marshal c))"
proof (intro conjI)
  have a: "fs w0 (configLocation h0) = NotExist" by (simp add: w0_def)
  have n: "\<not> noConfirm h0" by (simp add: h0_def)
  show "EnsureContext (scripted s1) h0 w0 = Some (Inr None, w0\<lparr>trace := [OpenedForRead (configLocation h0)]\<rparr>)"
    using EnsureContext_absent[OF a scripted_sel(8)] by (simp add: emit_def w0_def)
  show "Authenticate (scripted s1) h0 w0 = Some (Inr None, w0\<lparr>trace := [OpenedForRead (configLocation h0)]\<rparr>)"
    using Authenticate_absent[OF a scripted_sel(8) n] by (simp add: emit_def w0_def)
  show "\<exists>c W. EnsureContext (scripted s1) h0 w_signed_out = Some (Inr (Some c), W) \<and>
      SessionToken c = ''tok'' \<and>
      filter is_Asked (trace W) =
        [Asked ''Do you already have an Ory Console account you wish to use?'' True] \<and>
      fs W (configLocation h0) = Content (demo_Marshal c)"
    by (simp add: EnsureContext_def Authenticate_def Authenticate_new_def readConfig_def WriteConfig_def
          run_simps s1_sel flowA_def flowB_def w_signed_out_def new_AuthContext_def uuid_Nil_def version_def)
qed

lemma s_stepup_sel:
  "on_Ask s_stepup = [True]"
  "on_render s_stepup = [Inr [(''password'', ''x'')], Inr [(''totp_code'', ''123456'')]]"
  "on_InitLogin s_stepup = [Inr flowA, Inr flowT]"
  "on_SubmitLogin s_stepup = [Inr \<lparr>SessionToken_ptr = Some ''tok1''\<rparr>, Inr \<lparr>SessionToken_ptr = Some []\<rparr>]"
  "on_ToSession s_stepup = [Inl (GenericOpenAPIError aal2_body OtherModel), Inr session1]"
  by (simp_all add: s_stepup_def)

lemma ToSession_effect:
  assumes "ToSession_call env t w = (r, w')"
  shows "trace w' = trace w @ [ToSession t r]" and "fs w' = fs w"
    and "r = answer_ToSession env (trace w) t"
  using assms by (auto simp: ToSession_call_def Let_def emit_def)

lemma loop_events_no_init:
  assumes "list_all loop_event evs"
  shows "filter is_InitLogin evs = [] \<and> filter is_ToSession evs = []"
  using assms
proof (induction evs)
  case Nil
  show ?case by simp
next
  case (Cons e evs)
  then show ?case by (cases e) simp_all
qed

lemma signin_run:
  assumes "signin env tok w = Some (res, w')"
  shows "\<exists>evs. trace w' = trace w @ evs \<and> fs w' = fs w"
proof -
  from assms have "\<exists>evs. trace (snd (res, w')) = trace w @ evs \<and> fs (snd (res, w')) = fs w"
  proof (cases rule: signin_cases[where P = "\<lambda>tok w y. \<exists>evs. trace (snd y) = trace w @ evs \<and> fs (snd y) = fs w"])
    case (InitError tok w err w1)
    from InitLogin_effect[OF this] show ?case by simp
  next
    case (LoopFailure tok w flow w1 f w2)
    from InitLogin_effect[OF LoopFailure(1)] retryLogin_run[OF LoopFailure(2)] show ?case by auto
  next
    case (NilToken tok w flow w1 login w2)
    from InitLogin_effect[OF NilToken(1)] retryLogin_run[OF NilToken(2)] show ?case by auto
  next
    case (Success tok w flow w1 login w2 t sess w3 c)
    from InitLogin_effect[OF Success(1)] retryLogin_run[OF Success(2)] ToSession_effect(1,2)[OF Success(4)]
    show ?case by auto
  next
    case (ContextError tok w flow w1 login w2 t sess w3 err)
    from InitLogin_effect[OF ContextError(1)] retryLogin_run[OF ContextError(2)]
      ToSession_effect(1,2)[OF ContextError(4)]
    show ?case by auto
  next
    case (StepUp tok w flow w1 login w2 t err w3 y)
    from InitLogin_effect[OF StepUp(1)] retryLogin_run[OF StepUp(2)] ToSession_effect(1,2)[OF StepUp(4)]
      StepUp(6)
    show ?case by auto
  next
    case (ExchangeError tok w flow w1 login w2 t err w3)
    from InitLogin_effect[OF ExchangeError(1)] retryLogin_run[OF ExchangeError(2)]
      ToSession_effect(1,2)[OF ExchangeError(4)]
    show ?case by auto
  qed
  then show ?thesis by simp
qed

lemma signin_first_event:
  assumes "signin env tok w = Some (res, w')"
  shows "\<exists>r rest. since w w' =
     InitLogin (if length tok > 0 then Some tok else None)
               (if length tok > 0 then Some ''aal2'' else None) r # rest"
proof -
  obtain r w1 where init: "InitializeSelfServiceLoginFlowWithoutBrowser env
             (if length tok > 0 then Some tok else None)
             (if length tok > 0 then Some ''aal2'' else None) w = (r, w1)"
    by (metis surj_pair)
  note t1 = InitLogin_effect(1)[OF init]
  have "\<exists>evs. trace w' = trace w1 @ evs"
  proof (cases r)
    case (Inl err)
    with assms init show ?thesis by (simp add: signin_unfold)
  next
    case (Inr flow)
    with assms init obtain a w2 where loop: "retryLogin env tok flow False w1 = Some (a, w2)"
      by (cases "retryLogin env tok flow False w1") (auto simp: signin_unfold)
    from retryLogin_run[OF loop] obtain evs1 where t2: "trace w2 = trace w1 @ evs1" by blast
    show ?thesis
    proof (cases a)
      case (Inl f)
      with assms init Inr loop t2 show ?thesis by (simp add: signin_unfold)
    next
      case login: (Inr login)
      show ?thesis
      proof (cases "SessionToken_ptr login")
        case None
        with assms init Inr loop login t2 show ?thesis by (simp add: signin_unfold)
      next
        case (Some t)
        obtain x w3 where ex: "ToSession_call env (Coalesce [t, tok]) w2 = (x, w3)"
          by (metis surj_pair)
        note t3 = ToSession_effect(1)[OF ex]
        show ?thesis
        proof (cases x)
          case sess: (Inr sess)
          with assms init Inr loop login Some ex t2 t3 show ?thesis
            by (cases "sessionToContext env sess (Coalesce [t, tok])") (auto simp: signin_unfold)
        next
          case err: (Inl err)
          show ?thesis
          proof (cases "aal2_required env err")
            case False
            with assms init Inr loop login Some ex err t2 t3 show ?thesis
              by (auto simp: signin_unfold)
          next
            case True
            with assms init Inr loop login Some ex err
            have "signin env (Coalesce [t, tok]) w3 = Some (res, w')"
              by (auto simp: signin_unfold)
            from signin_run[OF this] t2 t3 show ?thesis by auto
          qed
        qed
      qed
    qed
  qed
  with t1 show ?thesis by (auto simp: since_def)
qed

lemma Coalesce_pair: "Coalesce [t, tok] = (if t = [] then tok else t)"
  by simp

lemma aal2_required_iff:
  "aal2_required env err =
     (\<exists>b m. err = GenericOpenAPIError b m \<and>
            gjson_String (gjson_GetBytes env b ''error.id'') = ''session_aal2_required'')"
  by (cases err) simp_all

text \<open>
  C3. Let the login loop end with an accepted submission whose answer has the token
  \<open>t\<close>, and let the session exchange, made with \<open>t\<close> (with the prior token when \<open>t\<close> is
  empty), fail with the error \<open>err\<close>.
  \<^item> If \<open>err\<close> is an API error whose body has \<open>error.id\<close> equal to
    \<open>session_aal2_required\<close>, then \<open>signin\<close> is the result of calling \<open>signin\<close> again
    with that token; the call starts by initiating a login flow with the token and
    \<open>aal2\<close> (always so when \<open>t\<close> is not empty). If the second attempt's submission and
    exchange succeed, \<open>signin\<close> returns its context after two flow initiations and two
    exchanges, that is one escalation.
  \<^item> If \<open>err\<close> is an API error whose \<open>error.id\<close> is anything else, or is not an API
    error, \<open>signin\<close> ends with \<open>err\<close>.
\<close>

theorem step_up_escalation:
  assumes "InitializeSelfServiceLoginFlowWithoutBrowser env
             (if length tok > 0 then Some tok else None)
             (if length tok > 0 then Some ''aal2'' else None) w = (Inr flow, wa)"
    and "retryLogin env tok flow False wa = Some (Inr login, wb)"
    and "SessionToken_ptr login = Some t"
    and "tk = (if t = [] then tok else t)"
    and "ToSession_call env tk wb = (Inl err, wc)"
  shows
    "(\<forall>b m. err = GenericOpenAPIError b m \<longrightarrow>
        gjson_String (gjson_GetBytes env b ''error.id'') = ''session_aal2_required'' \<longrightarrow>
        signin env tok w = signin env tk wc \<and>
        (\<forall>res w'. signin env tk wc = Some (res, w') \<longrightarrow>
           (\<exists>r rest. since wc w' =
              InitLogin (if tk = [] then None else Some tk)
                        (if tk = [] then None else Some ''aal2'') r # rest)) \<and>
        (t \<noteq> [] \<longrightarrow> tk = t \<and>
           (\<forall>res w'. signin env tk wc = Some (res, w') \<longrightarrow>
              (\<exists>r rest. since wc w' = InitLogin (Some t) (Some ''aal2'') r # rest))) \<and>
        (\<forall>flow2 wd login2 we t2 sess wf c.
           InitializeSelfServiceLoginFlowWithoutBrowser env
             (if tk = [] then None else Some tk)
             (if tk = [] then None else Some ''aal2'') wc = (Inr flow2, wd) \<longrightarrow>
           retryLogin env tk flow2 False wd = Some (Inr login2, we) \<longrightarrow>
           SessionToken_ptr login2 = Some t2 \<longrightarrow>
           ToSession_call env (if t2 = [] then tk else t2) we = (Inr sess, wf) \<longrightarrow>
           sessionToContext env sess (if t2 = [] then tk else t2) = Inr c \<longrightarrow>
             signin env tok w = Some (Inr (Some c), wf) \<and>
             length (filter is_InitLogin (since w wf)) = 2 \<and>
             length (filter is_ToSession (since w wf)) = 2)) \<and>
     (\<forall>b m. err = GenericOpenAPIError b m \<longrightarrow>
        gjson_String (gjson_GetBytes env b ''error.id'') \<noteq> ''session_aal2_required'' \<longrightarrow>
        signin env tok w = Some (Inl (Error err), wc)) \<and>
     ((\<forall>b m. err \<noteq> GenericOpenAPIError b m) \<longrightarrow> signin env tok w = Some (Inl (Error err), wc))"
proof -
  have tk: "Coalesce [t, tok] = tk" by (simp only: Coalesce_pair assms(4))
  have hdr: "(if length tk > 0 then Some tk else None) = (if tk = [] then None else Some tk)"
    "(if length tk > 0 then Some ''aal2'' else None) = (if tk = [] then None else Some ''aal2'')"
    by simp_all
  have other: "signin env tok w = Some (Inl (Error err), wc)" if "\<not> aal2_required env err"
    by (subst signin_unfold)
       (simp only: assms(1,2,3,5) tk prod.case sum.case option.case that if_False)
  have again: "signin env tok w = signin env tk wc" if "aal2_required env err"
    by (subst signin_unfold)
       (simp only: assms(1,2,3,5) tk prod.case sum.case option.case that if_True)
  have first: "\<exists>r rest. since wc w' =
              InitLogin (if tk = [] then None else Some tk)
                        (if tk = [] then None else Some ''aal2'') r # rest"
    if "signin env tk wc = Some (res, w')" for res w'
    using signin_first_event[OF that] by (simp only: hdr)
  have second: "signin env tok w = Some (Inr (Some c), wf) \<and>
             length (filter is_InitLogin (since w wf)) = 2 \<and>
             length (filter is_ToSession (since w wf)) = 2"
    if aal2: "aal2_required env err"
      and init2: "InitializeSelfServiceLoginFlowWithoutBrowser env
             (if tk = [] then None else Some tk)
             (if tk = [] then None else Some ''aal2'') wc = (Inr flow2, wd)"
      and loop2: "retryLogin env tk flow2 False wd = Some (Inr login2, we)"
      and ptr2: "SessionToken_ptr login2 = Some t2"
      and exch2: "ToSession_call env (if t2 = [] then tk else t2) we = (Inr sess, wf)"
      and ctx: "sessionToContext env sess (if t2 = [] then tk else t2) = Inr c"
    for flow2 wd login2 we t2 sess wf c
  proof -
    have tk2: "Coalesce [t2, tk] = (if t2 = [] then tk else t2)" by (rule Coalesce_pair)
    have "signin env tk wc = Some (Inr (Some c), wf)"
      by (subst signin_unfold)
         (simp only: hdr init2 loop2 ptr2 tk2 exch2 ctx prod.case sum.case option.case)
    with again[OF aal2] have res: "signin env tok w = Some (Inr (Some c), wf)" by simp
    from retryLogin_run[OF assms(2)] obtain evs1 where
      e1: "trace wb = trace wa @ evs1" "list_all loop_event evs1" by blast
    from retryLogin_run[OF loop2] obtain evs2 where
      e2: "trace we = trace wd @ evs2" "list_all loop_event evs2" by blast
    have tr: "since w wf =
        InitLogin (if length tok > 0 then Some tok else None)
                  (if length tok > 0 then Some ''aal2'' else None) (Inr flow) # evs1 @
        ToSession tk (Inl err) #
        InitLogin (if tk = [] then None else Some tk)
                  (if tk = [] then None else Some ''aal2'') (Inr flow2) # evs2 @
        [ToSession (if t2 = [] then tk else t2) (Inr sess)]"
      using InitLogin_effect(1)[OF assms(1)] e1(1) ToSession_effect(1)[OF assms(5)]
        InitLogin_effect(1)[OF init2] e2(1) ToSession_effect(1)[OF exch2]
      by (simp add: since_def)
    have "length (filter is_InitLogin (since w wf)) = 2"
      unfolding tr by (simp add: loop_events_no_init[OF e1(2)] loop_events_no_init[OF e2(2)])
    moreover have "length (filter is_ToSession (since w wf)) = 2"
      unfolding tr by (simp add: loop_events_no_init[OF e1(2)] loop_events_no_init[OF e2(2)])
    ultimately show ?thesis using res by simp
  qed
  show ?thesis
  proof (intro conjI allI impI)
    fix b m
    assume e: "err = GenericOpenAPIError b m"
      and i: "gjson_String (gjson_GetBytes env b ''error.id'') = ''session_aal2_required''"
    then have aal2: "aal2_required env err" by simp
    show "signin env tok w = signin env tk wc" by (rule again[OF aal2])
    show "\<exists>r rest. since wc w' =
              InitLogin (if tk = [] then None else Some tk)
                        (if tk = [] then None else Some ''aal2'') r # rest"
      if "signin env tk wc = Some (res, w')" for res w'
      by (rule first[OF that])
    show "tk = t" if "t \<noteq> []" using that assms(4) by simp
    show "\<exists>r rest. since wc w' = InitLogin (Some t) (Some ''aal2'') r # rest"
      if "t \<noteq> []" and "signin env tk wc = Some (res, w')" for res w'
      using first[OF that(2)] that(1) assms(4) by simp
    show "signin env tok w = Some (Inr (Some c), wf)"
      and "length (filter is_InitLogin (since w wf)) = 2"
      and "length (filter is_ToSession (since w wf)) = 2"
      if "InitializeSelfServiceLoginFlowWithoutBrowser env
             (if tk = [] then None else Some tk)
             (if tk = [] then None else Some ''aal2'') wc = (Inr flow2, wd)"
        and "retryLogin env tk flow2 False wd = Some (Inr login2, we)"
        and "SessionToken_ptr login2 = Some t2"
        and "ToSession_call env (if t2 = [] then tk else t2) we = (Inr sess, wf)"
        and "sessionToContext env sess (if t2 = [] then tk else t2) = Inr c"
      for flow2 wd login2 we t2 sess wf c
      using second[OF aal2 that] by simp_all
  next
    fix b m
    assume "err = GenericOpenAPIError b m"
      and "gjson_String (gjson_GetBytes env b ''error.id'') \<noteq> ''session_aal2_required''"
    then have "\<not> aal2_required env err" by simp
    then show "signin env tok w = Some (Inl (Error err), wc)" by (rule other)
  next
    assume "\<forall>b m. err \<noteq> GenericOpenAPIError b m"
    then have "\<not> aal2_required env err" by (simp add: aal2_required_iff)
    then show "signin env tok w = Some (Inl (Error err), wc)" by (rule other)
  qed
qed

lemma s_inactive_sel:
  "on_render s_inactive = [Inr [(''password'', ''x'')]]"
  "on_InitLogin s_inactive = [Inr flowA]"
  "on_SubmitLogin s_inactive = [Inr \<lparr>SessionToken_ptr = Some ''tok1''\<rparr>]"
  "on_ToSession s_inactive = [Inl (GenericOpenAPIError inactive_body OtherModel)]"
  by (simp_all add: s_inactive_def)

lemma s_offline_sel:
  "on_render s_offline = [Inr [(''password'', ''x'')]]"
  "on_InitLogin s_offline = [Inr flowA]"
  "on_SubmitLogin s_offline = [Inr \<lparr>SessionToken_ptr = Some ''tok1''\<rparr>]"
  "on_ToSession s_offline = []"
  by (simp_all add: s_offline_def)

theorem step_up_escalation_witness:
  "(\<exists>W. signin (scripted s_stepup) [] w0 = Some (Inr (Some ctx_signed_in), W) \<and>
        length (filter is_InitLogin (since w0 W)) = 2 \<and>
        length (filter is_ToSession (since w0 W)) = 2 \<and>
        filter is_InitLogin (since w0 W) =
          [InitLogin None None (Inr flowA), InitLogin (Some ''tok1'') (Some ''aal2'') (Inr flowT)]) \<and>
   (\<exists>W. signin (scripted s_inactive) [] w0 =
        Some (Inl (Error (GenericOpenAPIError inactive_body OtherModel)), W)) \<and>
   (\<exists>W. signin (scripted s_offline) [] w0 = Some (Inl (Error (OtherError ''connection refused'')), W))"
proof -
  let ?env = "scripted s_stepup"
  let ?err = "GenericOpenAPIError aal2_body OtherModel :: json error"
  let ?login = "\<lparr>SessionToken_ptr = Some ''tok1''\<rparr>"
  have tk: "''tok1'' = (if ''tok1'' = [] then [] else ''tok1'')" by simp
  have ptr: "SessionToken_ptr ?login = Some ''tok1''" by simp
  have "\<exists>wa wb wc wd we wf.
      InitializeSelfServiceLoginFlowWithoutBrowser ?env
         (if length ([] :: string) > 0 then Some [] else None)
         (if length ([] :: string) > 0 then Some ''aal2'' else None) w0 = (Inr flowA, wa) \<and>
      retryLogin ?env [] flowA False wa = Some (Inr ?login, wb) \<and>
      ToSession_call ?env ''tok1'' wb = (Inl ?err, wc) \<and>
      InitializeSelfServiceLoginFlowWithoutBrowser ?env
         (if ''tok1'' = [] then None else Some ''tok1'')
         (if ''tok1'' = [] then None else Some ''aal2'') wc = (Inr flowT, wd) \<and>
      retryLogin ?env ''tok1'' flowT False wd = Some (Inr \<lparr>SessionToken_ptr = Some []\<rparr>, we) \<and>
      ToSession_call ?env (if ([] :: string) = [] then ''tok1'' else []) we = (Inr session1, wf) \<and>
      filter is_InitLogin (since w0 wf) =
          [InitLogin None None (Inr flowA), InitLogin (Some ''tok1'') (Some ''aal2'') (Inr flowT)]"
    by (simp add: run_simps s_stepup_sel flowT_def lookup_node_def totp_node_def)
  then obtain wa wb wc wd we wf where
    init: "InitializeSelfServiceLoginFlowWithoutBrowser ?env
         (if length ([] :: string) > 0 then Some [] else None)
         (if length ([] :: string) > 0 then Some ''aal2'' else None) w0 = (Inr flowA, wa)"
    and loop: "retryLogin ?env [] flowA False wa = Some (Inr ?login, wb)"
    and exch: "ToSession_call ?env ''tok1'' wb = (Inl ?err, wc)"
    and init2: "InitializeSelfServiceLoginFlowWithoutBrowser ?env
         (if ''tok1'' = [] then None else Some ''tok1'')
         (if ''tok1'' = [] then None else Some ''aal2'') wc = (Inr flowT, wd)"
    and loop2: "retryLogin ?env ''tok1'' flowT False wd = Some (Inr \<lparr>SessionToken_ptr = Some []\<rparr>, we)"
    and exch2: "ToSession_call ?env (if ([] :: string) = [] then ''tok1'' else []) we = (Inr session1, wf)"
    and inits: "filter is_InitLogin (since w0 wf) =
          [InitLogin None None (Inr flowA), InitLogin (Some ''tok1'') (Some ''aal2'') (Inr flowT)]"
    by blast
  have ptr2: "SessionToken_ptr \<lparr>SessionToken_ptr = Some []\<rparr> = Some []" by simp
  have id: "gjson_String (gjson_GetBytes ?env aal2_body ''error.id'') = ''session_aal2_required''"
    by (simp add: scripted_sel demo_GetBytes_def aal2_body_def)
  have ctx: "sessionToContext ?env session1 (if ([] :: string) = [] then ''tok1'' else []) = Inr ctx_signed_in"
    by (simp add: sessionToContext_def getField_def uuid_FromStringOrNil_def scripted_sel
          demo_GetBytes_def session1_def ctx_signed_in_def version_def)
  from step_up_escalation[OF init loop ptr tk exch, THEN conjunct1, rule_format, OF refl id,
         THEN conjunct2, THEN conjunct2, THEN conjunct2, rule_format, OF init2 loop2 ptr2 exch2 ctx]
       inits
  have pos: "\<exists>W. signin (scripted s_stepup) [] w0 = Some (Inr (Some ctx_signed_in), W) \<and>
        length (filter is_InitLogin (since w0 W)) = 2 \<and>
        length (filter is_ToSession (since w0 W)) = 2 \<and>
        filter is_InitLogin (since w0 W) =
          [InitLogin None None (Inr flowA), InitLogin (Some ''tok1'') (Some ''aal2'') (Inr flowT)]"
    by blast
  let ?ienv = "scripted s_inactive"
  let ?ierr = "GenericOpenAPIError inactive_body OtherModel :: json error"
  have "\<exists>wa wb wc.
      InitializeSelfServiceLoginFlowWithoutBrowser ?ienv
         (if length ([] :: string) > 0 then Some [] else None)
         (if length ([] :: string) > 0 then Some ''aal2'' else None) w0 = (Inr flowA, wa) \<and>
      retryLogin ?ienv [] flowA False wa = Some (Inr ?login, wb) \<and>
      ToSession_call ?ienv ''tok1'' wb = (Inl ?ierr, wc)"
    by (simp add: run_simps s_inactive_sel)
  then obtain ia ib ic where
    iinit: "InitializeSelfServiceLoginFlowWithoutBrowser ?ienv
         (if length ([] :: string) > 0 then Some [] else None)
         (if length ([] :: string) > 0 then Some ''aal2'' else None) w0 = (Inr flowA, ia)"
    and iloop: "retryLogin ?ienv [] flowA False ia = Some (Inr ?login, ib)"
    and iexch: "ToSession_call ?ienv ''tok1'' ib = (Inl ?ierr, ic)"
    by blast
  have iid: "gjson_String (gjson_GetBytes ?ienv inactive_body ''error.id'') \<noteq> ''session_aal2_required''"
    by (simp add: scripted_sel demo_GetBytes_def inactive_body_def)
  from step_up_escalation[OF iinit iloop ptr tk iexch, THEN conjunct2, THEN conjunct1, rule_format,
         OF refl iid]
  have neg: "\<exists>W. signin (scripted s_inactive) [] w0 = Some (Inl (Error ?ierr), W)" by blast
  let ?oenv = "scripted s_offline"
  let ?oerr = "OtherError ''connection refused'' :: json error"
  have "\<exists>wa wb wc.
      InitializeSelfServiceLoginFlowWithoutBrowser ?oenv
         (if length ([] :: string) > 0 then Some [] else None)
         (if length ([] :: string) > 0 then Some ''aal2'' else None) w0 = (Inr flowA, wa) \<and>
      retryLogin ?oenv [] flowA False wa = Some (Inr ?login, wb) \<and>
      ToSession_call ?oenv ''tok1'' wb = (Inl ?oerr, wc)"
    by (simp add: run_simps s_offline_sel)
  then obtain oa ob oc where
    oinit: "InitializeSelfServiceLoginFlowWithoutBrowser ?oenv
         (if length ([] :: string) > 0 then Some [] else None)
         (if length ([] :: string) > 0 then Some ''aal2'' else None) w0 = (Inr flowA, oa)"
    and oloop: "retryLogin ?oenv [] flowA False oa = Some (Inr ?login, ob)"
    and oexch: "ToSession_call ?oenv ''tok1'' ob = (Inl ?oerr, oc)"
    by blast
  have oid: "\<forall>b m. ?oerr \<noteq> GenericOpenAPIError b m" by simp
  from step_up_escalation[OF oinit oloop ptr tk oexch, THEN conjunct2, THEN conjunct2, THEN mp, OF oid]
  have off: "\<exists>W. signin (scripted s_offline) [] w0 = Some (Inl (Error ?oerr), W)" by blast
  from pos neg off show ?thesis by blast
qed

lemma s_noemail_sel:
  "on_Ask s_noemail = [True]"
  "on_render s_noemail = [Inr [(''password'', ''x'')]]"
  "on_InitLogin s_noemail = [Inr flowA]"
  "on_SubmitLogin s_noemail = [Inr \<lparr>SessionToken_ptr = Some ''tok1''\<rparr>]"
  "on_ToSession s_noemail = [Inr \<lparr>Identity_Id = ''id'', Identity_Traits = JObject [(''username'', JString ''a'')]\<rparr>]"
  by (simp_all add: s_noemail_def)

lemma sessionToContext_fields:
  assumes "sessionToContext env sess tk = Inr c"
  shows "SessionToken c = tk" and "Version c = version"
    and "\<exists>r. getField env (Identity_Traits sess) ''email'' = Inr r \<and> Email (IdentityTraits c) = gjson_String r"
  using assms by (auto simp: sessionToContext_def split: sum.splits)

lemma sessionToContext_ok:
  assumes "sessionToContext env sess tk = Inr c" and "session_has_email env sess"
  shows "ctx_ok c"
  using sessionToContext_fields(3)[OF assms(1)] assms(2)
  by (auto simp: ctx_ok_def session_has_email_def)

lemma signin_context:
  assumes "signin env tok w = Some (Inr x, w')"
  shows "\<exists>c tr tk sess. x = Some c \<and> answer_ToSession env tr tk = Inr sess \<and>
           sessionToContext env sess tk = Inr c"
proof -
  from assms have "\<forall>z. fst (Inr x :: 'a failure + AuthContext option, w') = Inr z \<longrightarrow>
    (\<exists>c tr tk sess. z = Some c \<and> answer_ToSession env tr tk = Inr sess \<and>
           sessionToContext env sess tk = Inr c)"
  proof (cases rule: signin_cases[where P = "\<lambda>tok w y. \<forall>z. fst y = Inr z \<longrightarrow>
    (\<exists>c tr tk sess. z = Some c \<and> answer_ToSession env tr tk = Inr sess \<and>
           sessionToContext env sess tk = Inr c)"])
    case (Success tok w flow w1 login w2 t sess w3 c)
    from ToSession_effect(3)[OF Success(4)] Success(5)
    have "answer_ToSession env (trace w2) (Coalesce [t, tok]) = Inr sess \<and>
          sessionToContext env sess (Coalesce [t, tok]) = Inr c" by simp
    then show ?case by (simp only: fst_conv sum.inject option.inject) blast
  qed simp_all
  then show ?thesis by simp
qed

lemma signup_context:
  assumes "signup env w = Some (Inr x, w')"
  shows "\<exists>c tr tk sess. x = Some c \<and> answer_ToSession env tr tk = Inr sess \<and>
           sessionToContext env sess tk = Inr c"
  using assms
  by (auto simp: signup_def ToSession_call_def Let_def
           split: prod.splits sum.splits option.splits)

lemma readConfig_Some:
  assumes "readConfig env h w = ((Some c, None), w1)"
  shows "\<exists>b. fs w (configLocation h) = Content b \<and> json_Unmarshal env b = Inr c"
  using assms
  by (auto simp: readConfig_def os_Open_def Decode_def emit_def
           split: file_state.splits option.splits sum.splits if_splits)

lemma Authenticate_new_context:
  assumes "Authenticate_new env h w = Some (Inr x, w')"
  shows "\<exists>c0 tr tk sess. x = Some (c0\<lparr>Version := version\<rparr>) \<and>
           answer_ToSession env tr tk = Inr sess \<and> sessionToContext env sess tk = Inr c0 \<and>
           fs w' (configLocation h) = Content (json_Marshal env (c0\<lparr>Version := version\<rparr>))"
proof -
  obtain nc w1 where nc: "newConsoleClient env w = (nc, w1)" by (metis surj_pair)
  obtain signIn w2 where ask: "AskForConfirmation env
      ''Do you already have an Ory Console account you wish to use?'' w1 = (signIn, w2)"
    by (metis surj_pair)
  from assms nc ask obtain y w3 where
    run: "(if signIn then signin env [] w2 else signup env w2) = Some (Inr y, w3)"
    by (auto simp: Authenticate_new_def split: option.splits sum.splits prod.splits)
  have "\<exists>c tr tk sess. y = Some c \<and> answer_ToSession env tr tk = Inr sess \<and>
           sessionToContext env sess tk = Inr c"
    using run signin_context[of env "[]" w2 y w3] signup_context[of env w2 y w3]
    by (cases signIn) simp_all
  then obtain c0 tr tk sess where c0: "y = Some c0" "answer_ToSession env tr tk = Inr sess"
    "sessionToContext env sess tk = Inr c0" by blast
  from assms nc ask run c0(1) obtain ac' w4 where
    wr: "WriteConfig env h c0 w3 = ((None, ac'), w4)" and x: "x = Some ac'"
      and w': "w' = Fprintf (''You are now signed in as: %s'' @ nl) [Email (IdentityTraits ac')] w4"
    by (auto simp: Authenticate_new_def split: option.splits sum.splits prod.splits if_splits)
  from WriteConfig_ok[OF wr] x w' c0(2,3) show ?thesis
    by (auto simp: Fprintf_def emit_def)
qed

lemma ctx_ok_version: "ctx_ok (c\<lparr>Version := v\<rparr>) = ctx_ok c"
  by (simp add: ctx_ok_def)

lemma Authenticate_paths:
  assumes "Authenticate env h w = Some (Inr (Some c), w')"
  shows "(\<exists>w1. readConfig env h w = ((Some c, None), w1)) \<or>
         (\<exists>w1. Authenticate_new env h w1 = Some (Inr (Some c), w'))"
proof -
  have nc: "\<not> noConfirm h" using assms by (auto simp: Authenticate_def)
  obtain ac err w1 where rc: "readConfig env h w = ((ac, err), w1)" by (metis surj_pair)
  show ?thesis
  proof (cases err)
    case (Some e)
    with assms nc rc show ?thesis
      by (cases ac) (auto simp: Authenticate_def split: if_splits)
  next
    case None
    show ?thesis
    proof (cases ac)
      case ac: None
      with assms nc rc None show ?thesis by (auto simp: Authenticate_def)
    next
      case ac: (Some a)
      show ?thesis
      proof (cases "length (SessionToken a) > 0")
        case False
        with assms nc rc None ac show ?thesis by (auto simp: Authenticate_def)
      next
        case True
        obtain another w2 where ask: "AskForConfirmation env
            (''You are signed in as '' @ quote @ Email (IdentityTraits a) @ quote
               @ '' already. Do you wish to authenticate with another account?'') w1 = (another, w2)"
          by (metis surj_pair)
        show ?thesis
        proof (cases another)
          case False
          with assms nc rc None ac True ask show ?thesis by (auto simp: Authenticate_def)
        next
          case yes: True
          obtain e w3 where so: "SignOut env h (Fprintf (''Ok, signing you out!'' @ nl) [] w2) = (e, w3)"
            by (metis surj_pair)
          from assms nc rc None ac True ask yes so show ?thesis
            by (cases e) (auto simp: Authenticate_def)
        qed
      qed
    qed
  qed
qed

text \<open>
  C8. A context built from a session has the email that the lookup of
  \<open>email\<close> in the session's traits gives; the handler does not check that it is not
  empty. So, when every session that the identity API returns has a non-empty email
  trait, every context returned by \<open>signin\<close>, \<open>signup\<close> and a new authentication, and
  the document that the latter stores, has a non-empty email beside its session token;
  \<open>Authenticate\<close> keeps this for the stored context it may return, and the context stored
  by sign-out has no token.
\<close>

theorem token_implies_email:
  assumes "\<forall>tr tk sess. answer_ToSession env tr tk = Inr sess \<longrightarrow> session_has_email env sess"
  shows
    "(signin env tok w = Some (Inr x, w') \<longrightarrow> (\<exists>c. x = Some c \<and> ctx_ok c)) \<and>
     (signup env w = Some (Inr x, w') \<longrightarrow> (\<exists>c. x = Some c \<and> ctx_ok c)) \<and>
     (Authenticate_new env h w = Some (Inr x, w') \<longrightarrow>
        (\<exists>c. x = Some c \<and> ctx_ok c \<and> fs w' (configLocation h) = Content (json_Marshal env c))) \<and>
     ((\<forall>b c0. fs w (configLocation h) = Content b \<longrightarrow> json_Unmarshal env b = Inr c0 \<longrightarrow> ctx_ok c0) \<longrightarrow>
        Authenticate env h w = Some (Inr (Some c), w') \<longrightarrow> ctx_ok c) \<and>
     ctx_ok (new_AuthContext\<lparr>Version := version\<rparr>)"
proof (intro conjI impI)
  note ok = sessionToContext_ok[OF _ assms[rule_format]]
  show "\<exists>c. x = Some c \<and> ctx_ok c" if "signin env tok w = Some (Inr x, w')"
    using signin_context[OF that] ok by blast
  show "\<exists>c. x = Some c \<and> ctx_ok c" if "signup env w = Some (Inr x, w')"
    using signup_context[OF that] ok by blast
  show new: "\<exists>c. x = Some c \<and> ctx_ok c \<and> fs w' (configLocation h) = Content (json_Marshal env c)"
    if "Authenticate_new env h w = Some (Inr x, w')" for x w w'
    using Authenticate_new_context[OF that] ok by (metis ctx_ok_version)
  show "ctx_ok (new_AuthContext\<lparr>Version := version\<rparr>)"
    by (simp add: ctx_ok_def new_AuthContext_def)
  assume stored: "\<forall>b c0. fs w (configLocation h) = Content b \<longrightarrow> json_Unmarshal env b = Inr c0 \<longrightarrow> ctx_ok c0"
    and run: "Authenticate env h w = Some (Inr (Some c), w')"
  from Authenticate_paths[OF run] show "ctx_ok c"
  proof
    assume "\<exists>w1. readConfig env h w = ((Some c, None), w1)"
    then obtain w1 where "readConfig env h w = ((Some c, None), w1)" ..
    from readConfig_Some[OF this] stored show ?thesis by blast
  next
    assume "\<exists>w1. Authenticate_new env h w1 = Some (Inr (Some c), w')"
    then obtain w1 where "Authenticate_new env h w1 = Some (Inr (Some c), w')" ..
    from new[OF this] show ?thesis by simp
  qed
qed

theorem token_implies_email_witness:
  "\<exists>c W. signin (scripted s1) [] w0 = Some (Inr (Some c), W) \<and> ctx_ok c \<and>
     SessionToken c = ''tok'' \<and> Email (IdentityTraits c) = ''a@example.com''"
proof -
  have hyp: "\<forall>tr tk sess. answer_ToSession (scripted s1) tr tk = Inr sess \<longrightarrow>
      session_has_email (scripted s1) sess"
    by (auto simp: scripted_sel s1_sel nth_answer_def session_has_email_def getField_def
          demo_GetBytes_def unreachable_def split: if_splits)
  have "\<exists>c W. signin (scripted s1) [] w0 = Some (Inr (Some c), W) \<and>
     SessionToken c = ''tok'' \<and> Email (IdentityTraits c) = ''a@example.com''"
    by (simp add: run_simps s1_sel flowA_def flowB_def)
  then obtain c W where run: "signin (scripted s1) [] w0 = Some (Inr (Some c), W)"
    and f: "SessionToken c = ''tok''" "Email (IdentityTraits c) = ''a@example.com''" by blast
  from token_implies_email[OF hyp, where tok = "[]" and w = w0 and x = "Some c" and w' = W,
         THEN conjunct1, rule_format, OF run]
  have "ctx_ok c" by simp
  with run f show ?thesis by blast
qed

theorem token_implies_email_counterexample:
  "Authenticate (scripted s_noemail) h0 w_signed_out \<noteq> None \<and>
   fst (the (Authenticate (scripted s_noemail) h0 w_signed_out)) = Inr (Some ctx_noemail) \<and>
   fs (snd (the (Authenticate (scripted s_noemail) h0 w_signed_out))) (configLocation h0) =
     Content (demo_Marshal ctx_noemail) \<and>
   SessionToken ctx_noemail = ''tok1'' \<and> Email (IdentityTraits ctx_noemail) = [] \<and>
   \<not> ctx_ok ctx_noemail"
  by (simp add: Authenticate_def Authenticate_new_def readConfig_def WriteConfig_def
        run_simps s_noemail_sel flowA_def w_signed_out_def new_AuthContext_def uuid_Nil_def
        version_def ctx_noemail_def ctx_ok_def)

end
